theory Spec2Isabelle
  imports Complex_Main "HOL-Library.Sublist" "HOL-Library.AList"
begin

section \<open>Telemetry pattern analysis (analyze-otel-patterns.py)\<close>

text \<open>
  A shallow embedding of class \<open>TelemetryAnalyzer\<close>: the loader
  \<open>load_recent_telemetry\<close>, the detector \<open>detect_patterns\<close>, the coach
  \<open>generate_coaching\<close> and the writer \<open>update_statusline\<close>.

  Python values are the values \<open>json.loads\<close> produces. A dict is an association list
  in insertion order, looked up with \<open>map_of\<close>; a \<open>str\<close> is its UTF-8 byte sequence.
  Every exception the source can raise is a value \<open>Inl e\<close> of the result.
\<close>

subsection \<open>Python values and exceptions\<close>

datatype pyfloat = Finite rat | PosInf | NegInf | NaN

datatype json =
    JNull
  | JBool bool
  | JInt int
  | JFloat pyfloat
  | JStr string
  | JList "json list"
  | JDict "(string \<times> json) list"

datatype error = KeyError | TypeError | AttributeError | ValueError | UnicodeDecodeError

text \<open>Sequencing of two steps, the first of which may raise.\<close>

definition bind_err :: "error + 'a \<Rightarrow> ('a \<Rightarrow> error + 'b) \<Rightarrow> error + 'b" where
  "bind_err m f = (case m of Inl e \<Rightarrow> Inl e | Inr x \<Rightarrow> f x)"

text \<open>\<open>obj[key]\<close> with a string key: only a dict can be subscripted by a string.\<close>

definition subscript :: "json \<Rightarrow> string \<Rightarrow> error + json" where
  "subscript obj key =
     (case obj of
        JDict kvs \<Rightarrow> (case map_of kvs key of None \<Rightarrow> Inl KeyError | Some v \<Rightarrow> Inr v)
      | _ \<Rightarrow> Inl TypeError)"

text \<open>\<open>obj.get(key, default)\<close>: only a dict has the attribute \<open>get\<close>.\<close>

definition get_default :: "json \<Rightarrow> string \<Rightarrow> json \<Rightarrow> error + json" where
  "get_default obj key dflt =
     (case obj of
        JDict kvs \<Rightarrow> Inr (case map_of kvs key of None \<Rightarrow> dflt | Some v \<Rightarrow> v)
      | _ \<Rightarrow> Inl AttributeError)"

text \<open>
  \<open>for x in obj\<close>: a list yields its elements, a dict its keys, a string its
  characters; nothing else is iterable.
\<close>

definition iterate :: "json \<Rightarrow> error + json list" where
  "iterate obj =
     (case obj of
        JList xs \<Rightarrow> Inr xs
      | JDict kvs \<Rightarrow> Inr (map (\<lambda>kv. JStr (fst kv)) kvs)
      | JStr s \<Rightarrow> Inr (map (\<lambda>c. JStr [c]) s)
      | _ \<Rightarrow> Inl TypeError)"

text \<open>A \<open>for\<close> loop whose body updates the loop state or raises.\<close>

fun for_loop :: "('s \<Rightarrow> 'a \<Rightarrow> error + 's) \<Rightarrow> 's \<Rightarrow> 'a list \<Rightarrow> error + 's" where
  "for_loop body s [] = Inr s"
| "for_loop body s (x # xs) =
     (case body s x of Inl e \<Rightarrow> Inl e | Inr s' \<Rightarrow> for_loop body s' xs)"

text \<open>
  \<open>str.lower()\<close> on the ASCII letters; every other byte is left as it is. Python
  lowers the other letters of Unicode too, but none of them to a letter of "tool", so the
  test for "tool" is the same; the test for "token" has no effect on the result.
\<close>

definition lower_char :: "char \<Rightarrow> char" where
  "lower_char c =
     (case map_of (zip ''ABCDEFGHIJKLMNOPQRSTUVWXYZ'' ''abcdefghijklmnopqrstuvwxyz'') c of
        Some l \<Rightarrow> l
      | None \<Rightarrow> c)"

definition lower :: "json \<Rightarrow> error + string" where
  "lower obj = (case obj of JStr s \<Rightarrow> Inr (map lower_char s) | _ \<Rightarrow> Inl AttributeError)"

text \<open>\<open>sub in s\<close> on strings: \<open>sub\<close> occurs in \<open>s\<close> as a contiguous run.\<close>

fun str_contains :: "string \<Rightarrow> string \<Rightarrow> bool" where
  "str_contains sub [] = (sub = [])"
| "str_contains sub (c # cs) = (prefix sub (c # cs) \<or> str_contains sub cs)"

text \<open>\<open>v == n\<close> for an integer literal \<open>n\<close>: a float equal to \<open>n\<close> compares equal,
  a bool counts as 0 or 1.\<close>

definition eq_int :: "json \<Rightarrow> int \<Rightarrow> bool" where
  "eq_int v n =
     (case v of
        JInt i \<Rightarrow> i = n
      | JFloat (Finite r) \<Rightarrow> r = of_int n
      | JBool b \<Rightarrow> (if b then 1 else 0) = n
      | _ \<Rightarrow> False)"

subsection \<open>The coach\<close>

text \<open>The seven messages, as UTF-8: an emoji followed by ASCII text.\<close>

definition msg_error_thrashing :: string where
  "msg_error_thrashing =
     [CHR 0xF0, CHR 0x9F, CHR 0x92, CHR 0xAD] @ '' Multiple errors detected. Try: vibecheck?''"

definition msg_stuck :: string where
  "msg_stuck =
     [CHR 0xF0, CHR 0x9F, CHR 0xA4, CHR 0x94] @ '' Seems quiet. Need help exploring options?''"

definition msg_flow_state :: string where
  "msg_flow_state = [CHR 0xF0, CHR 0x9F, CHR 0x9A, CHR 0x80] @ '' Great momentum! Keep going!''"

definition msg_debugging :: string where
  "msg_debugging =
     [CHR 0xF0, CHR 0x9F, CHR 0x94, CHR 0x8D] @ '' Debugging mode. Remember: test as you go''"

definition msg_exploring :: string where
  "msg_exploring =
     [CHR 0xF0, CHR 0x9F, CHR 0x97, CHR 0xBA, CHR 0xEF, CHR 0xB8, CHR 0x8F]
       @ '' Exploring well! Focus emerging?''"

definition msg_context_pressure :: string where
  "msg_context_pressure =
     [CHR 0xF0, CHR 0x9F, CHR 0x93, CHR 0x9A] @ '' High token usage. Consider summarizing''"

definition msg_ready :: string where
  "msg_ready = [CHR 0xE2, CHR 0x9C, CHR 0xA8] @ '' Ready to assist''"

text \<open>\<open>patterns[key]\<close> on the flags dict: \<open>KeyError\<close> when the key is absent.\<close>

definition flag :: "(string \<times> bool) list \<Rightarrow> string \<Rightarrow> error + bool" where
  "flag patterns key = (case map_of patterns key of None \<Rightarrow> Inl KeyError | Some b \<Rightarrow> Inr b)"

definition generate_coaching :: "(string \<times> bool) list \<Rightarrow> error + string" where
  "generate_coaching patterns =
     bind_err (flag patterns ''error_thrashing'') (\<lambda>b1.
       if b1 then Inr msg_error_thrashing else
     bind_err (flag patterns ''stuck'') (\<lambda>b2.
       if b2 then Inr msg_stuck else
     bind_err (flag patterns ''flow_state'') (\<lambda>b3.
       if b3 then Inr msg_flow_state else
     bind_err (flag patterns ''debugging'') (\<lambda>b4.
       if b4 then Inr msg_debugging else
     bind_err (flag patterns ''exploring'') (\<lambda>b5.
       if b5 then Inr msg_exploring else
     bind_err (flag patterns ''context_pressure'') (\<lambda>b6.
       if b6 then Inr msg_context_pressure else
     Inr msg_ready))))))"

text \<open>
  The specification's reading of the coach: a PatternFlags value maps each of the six
  pattern names to a boolean, and the message is that of the first name, in priority
  order, whose flag is true.
\<close>

definition pattern_names :: "string list" where
  "pattern_names =
     [''error_thrashing'', ''flow_state'', ''stuck'', ''context_pressure'', ''exploring'',
      ''debugging'']"

definition is_pattern_flags :: "(string \<times> bool) list \<Rightarrow> bool" where
  "is_pattern_flags patterns = list_all (\<lambda>k. map_of patterns k \<noteq> None) pattern_names"

definition priority_order :: "(string \<times> string) list" where
  "priority_order =
     [(''error_thrashing'', msg_error_thrashing),
      (''stuck'', msg_stuck),
      (''flow_state'', msg_flow_state),
      (''debugging'', msg_debugging),
      (''exploring'', msg_exploring),
      (''context_pressure'', msg_context_pressure)]"

fun first_match :: "(string \<times> bool) list \<Rightarrow> (string \<times> string) list \<Rightarrow> string" where
  "first_match patterns [] = msg_ready"
| "first_match patterns ((k, m) # rest) =
     (if map_of patterns k = Some True then m else first_match patterns rest)"

subsection \<open>The detector\<close>

text \<open>The three accumulators of \<open>detect_patterns\<close>.\<close>

record counts =
  tool_errors :: nat
  tool_successes :: nat
  unique_tools :: "string set"

text \<open>
  \<open>unique_tools.add(name)\<close>. It is only reached after \<open>name.lower()\<close> has
  succeeded, that is with a string; the set holds strings.
\<close>

definition set_add :: "string set \<Rightarrow> json \<Rightarrow> error + string set" where
  "set_add s v = (case v of JStr n \<Rightarrow> Inr (insert n s) | _ \<Rightarrow> Inl TypeError)"

text \<open>The body of the innermost loop, \<open>for span in ss.get('spans', [])\<close>.\<close>

definition span_body :: "counts \<Rightarrow> json \<Rightarrow> error + counts" where
  "span_body c sp =
     bind_err (get_default sp ''name'' (JStr [])) (\<lambda>name.
     bind_err (get_default sp ''status'' (JDict [])) (\<lambda>status.
     bind_err (lower name) (\<lambda>lowered.
       if str_contains ''tool'' lowered then
         bind_err (set_add (unique_tools c) name) (\<lambda>tools.
         bind_err (get_default status ''code'' JNull) (\<lambda>code.
           if eq_int code 2
           then Inr (c\<lparr>unique_tools := tools, tool_errors := tool_errors c + 1\<rparr>)
           else Inr (c\<lparr>unique_tools := tools, tool_successes := tool_successes c + 1\<rparr>)))
       else Inr c)))"

definition scope_spans_body :: "counts \<Rightarrow> json \<Rightarrow> error + counts" where
  "scope_spans_body c ss =
     bind_err (get_default ss ''spans'' (JList [])) (\<lambda>spans.
     bind_err (iterate spans) (for_loop span_body c))"

definition resource_spans_body :: "counts \<Rightarrow> json \<Rightarrow> error + counts" where
  "resource_spans_body c rs =
     bind_err (get_default rs ''scopeSpans'' (JList [])) (\<lambda>scope_spans.
     bind_err (iterate scope_spans) (for_loop scope_spans_body c))"

text \<open>The metrics branch only evaluates the test; its body is \<open>pass\<close>.\<close>

definition metric_body :: "counts \<Rightarrow> json \<Rightarrow> error + counts" where
  "metric_body c metric =
     bind_err (get_default metric ''name'' (JStr [])) (\<lambda>name.
     bind_err (lower name) (\<lambda>lowered.
       if str_contains ''token'' lowered then Inr c else Inr c))"

definition scope_metrics_body :: "counts \<Rightarrow> json \<Rightarrow> error + counts" where
  "scope_metrics_body c sm =
     bind_err (get_default sm ''metrics'' (JList [])) (\<lambda>metrics.
     bind_err (iterate metrics) (for_loop metric_body c))"

definition resource_metrics_body :: "counts \<Rightarrow> json \<Rightarrow> error + counts" where
  "resource_metrics_body c rm =
     bind_err (get_default rm ''scopeMetrics'' (JList [])) (\<lambda>scope_metrics.
     bind_err (iterate scope_metrics) (for_loop scope_metrics_body c))"

text \<open>The body of \<open>for entry in telemetry\<close>.\<close>

definition entry_body :: "counts \<Rightarrow> json \<Rightarrow> error + counts" where
  "entry_body c entry =
     bind_err (subscript entry ''type'') (\<lambda>ty.
       if ty = JStr ''traces'' then
         bind_err (get_default entry ''data'' (JDict [])) (\<lambda>data.
         bind_err (get_default data ''resourceSpans'' (JList [])) (\<lambda>resource_spans.
         bind_err (iterate resource_spans) (for_loop resource_spans_body c)))
       else
         bind_err (subscript entry ''type'') (\<lambda>ty'.
           if ty' = JStr ''metrics'' then
             bind_err (get_default entry ''data'' (JDict [])) (\<lambda>data.
             bind_err (get_default data ''resourceMetrics'' (JList [])) (\<lambda>resource_metrics.
             bind_err (iterate resource_metrics) (for_loop resource_metrics_body c)))
           else Inr c))"

text \<open>
  \<open>tool_errors / max(tool_errors + tool_successes, 1)\<close>. Python's true division gives
  the double nearest to the quotient; the model keeps the exact quotient, and the
  literals \<open>0.4\<close> and \<open>0.1\<close> are the rationals 2/5 and 1/10. The two comparisons
  of the rules have the same outcome either way as long as there are fewer than
  \<open>2 ^ 50\<close> tool spans: a quotient with such a denominator that differs from 2/5 (or
  1/10) lies further from it than the rounding of doubles can bridge.
\<close>

definition error_rate :: "nat \<Rightarrow> nat \<Rightarrow> rat" where
  "error_rate errs succs = of_nat errs / of_nat (max (errs + succs) 1)"

definition initial_patterns :: "(string \<times> bool) list" where
  "initial_patterns =
     [(''error_thrashing'', False), (''flow_state'', False), (''stuck'', False),
      (''context_pressure'', False), (''exploring'', False), (''debugging'', False)]"

definition initial_counts :: counts where
  "initial_counts = \<lparr>tool_errors = 0, tool_successes = 0, unique_tools = {}\<rparr>"

text \<open>\<open>if cond: patterns[key] = True\<close>.\<close>

definition set_if :: "bool \<Rightarrow> string \<Rightarrow> (string \<times> bool) list \<Rightarrow> (string \<times> bool) list" where
  "set_if cond key patterns = (if cond then AList.update key True patterns else patterns)"

text \<open>The flags as the rules after the loop set them.\<close>

definition flags_of :: "nat \<Rightarrow> counts \<Rightarrow> (string \<times> bool) list" where
  "flags_of total_events c =
     (let rate = error_rate (tool_errors c) (tool_successes c);
          p1 = set_if (rate > 2 / 5 \<and> tool_errors c \<ge> 3) ''error_thrashing'' initial_patterns;
          p2 = set_if (tool_successes c \<ge> 5 \<and> card (unique_tools c) \<ge> 3 \<and> rate < 1 / 10)
                 ''flow_state'' p1;
          p3 = set_if (total_events < 5 \<or> (card (unique_tools c) = 1 \<and> total_events > 3))
                 ''stuck'' p2;
          p4 = set_if (card (unique_tools c) \<ge> 5) ''exploring'' p3;
          p5 = set_if (tool_errors c \<ge> 2 \<and> tool_successes c \<ge> 2) ''debugging'' p4
      in p5)"

definition detect_patterns :: "json list \<Rightarrow> error + (string \<times> bool) list" where
  "detect_patterns telemetry =
     bind_err (for_loop entry_body initial_counts telemetry) (\<lambda>c.
       Inr (flags_of (length telemetry) c))"

subsection \<open>The specification's view of the detector's input\<close>

text \<open>
  A field of an object, absent when the value is not an object or has no such key; the
  elements of an array field, none when the field is absent or not an array.
\<close>

definition field :: "string \<Rightarrow> json \<Rightarrow> json option" where
  "field key obj = (case obj of JDict kvs \<Rightarrow> map_of kvs key | _ \<Rightarrow> None)"

definition elements :: "json option \<Rightarrow> json list" where
  "elements v = (case v of Some (JList xs) \<Rightarrow> xs | _ \<Rightarrow> [])"

text \<open>The spans of a record: \<open>data.resourceSpans[].scopeSpans[].spans[]\<close> of a
  \<open>traces\<close> record, none for any other record.\<close>

definition scope_spans_of :: "json \<Rightarrow> json list" where
  "scope_spans_of ss = elements (field ''spans'' ss)"

definition resource_spans_of :: "json \<Rightarrow> json list" where
  "resource_spans_of rs = concat (map scope_spans_of (elements (field ''scopeSpans'' rs)))"

definition spans_of :: "json \<Rightarrow> json list" where
  "spans_of entry =
     (if field ''type'' entry = Some (JStr ''traces'')
      then concat (map resource_spans_of
             (elements (Option.bind (field ''data'' entry) (field ''resourceSpans''))))
      else [])"

definition span_name :: "json \<Rightarrow> string" where
  "span_name sp = (case field ''name'' sp of Some (JStr n) \<Rightarrow> n | _ \<Rightarrow> [])"

text \<open>A tool span: its name contains "tool", case-insensitively. It is an error when
  its status code equals 2.\<close>

definition is_tool_span :: "json \<Rightarrow> bool" where
  "is_tool_span sp = str_contains ''tool'' (map lower_char (span_name sp))"

definition is_error_span :: "json \<Rightarrow> bool" where
  "is_error_span sp =
     (case Option.bind (field ''status'' sp) (field ''code'') of
        Some code \<Rightarrow> eq_int code 2
      | None \<Rightarrow> False)"

definition tool_spans :: "json list \<Rightarrow> json list" where
  "tool_spans telemetry = filter is_tool_span (concat (map spans_of telemetry))"

definition errors :: "json list \<Rightarrow> nat" where
  "errors telemetry = length (filter is_error_span (tool_spans telemetry))"

definition successes :: "json list \<Rightarrow> nat" where
  "successes telemetry = length (filter (\<lambda>sp. \<not> is_error_span sp) (tool_spans telemetry))"

definition distinct_tools :: "json list \<Rightarrow> nat" where
  "distinct_tools telemetry = card (span_name ` set (tool_spans telemetry))"

text \<open>The counts after a list of spans has been added to them.\<close>

definition add_spans :: "counts \<Rightarrow> json list \<Rightarrow> counts" where
  "add_spans c spans =
     \<lparr>tool_errors = tool_errors c + length (filter is_error_span (filter is_tool_span spans)),
      tool_successes =
        tool_successes c + length (filter (\<lambda>s. \<not> is_error_span s) (filter is_tool_span spans)),
      unique_tools = unique_tools c \<union> span_name ` set (filter is_tool_span spans)\<rparr>"

subsection \<open>Example telemetry and shape predicates\<close>

definition example_span :: "string \<Rightarrow> int \<Rightarrow> json" where
  "example_span name code = JDict [(''name'', JStr name), (''status'', JDict [(''code'', JInt code)])]"

definition example_record :: "json list \<Rightarrow> json" where
  "example_record spans =
     JDict [(''timestamp'', JStr ''2025-01-01T12:00:00''), (''type'', JStr ''traces''),
            (''data'', JDict [(''resourceSpans'',
               JList [JDict [(''scopeSpans'', JList [JDict [(''spans'', JList spans)]])]])])]"

definition thrashing_example :: "json list" where
  "thrashing_example =
     [example_record [example_span ''tool_a'' 2, example_span ''tool_a'' 2,
        example_span ''Tool_b'' 2, example_span ''tool_c'' 0, example_span ''read_TOOL'' 1]]"

definition repetitive_example :: "json list" where
  "repetitive_example =
     [example_record [example_span ''tool_a'' 0], example_record [example_span ''tool_a'' 0],
      example_record [example_span ''tool_a'' 0], example_record [example_span ''tool_a'' 0],
      example_record [example_span ''tool_a'' 0]]"


definition is_dict :: "json \<Rightarrow> bool" where
  "is_dict v = (case v of JDict kvs \<Rightarrow> True | _ \<Rightarrow> False)"

definition is_str :: "json \<Rightarrow> bool" where
  "is_str v = (case v of JStr s \<Rightarrow> True | _ \<Rightarrow> False)"

definition absent_or :: "(json \<Rightarrow> bool) \<Rightarrow> json option \<Rightarrow> bool" where
  "absent_or P v = (case v of None \<Rightarrow> True | Some x \<Rightarrow> P x)"

definition array_of :: "(json \<Rightarrow> bool) \<Rightarrow> json \<Rightarrow> bool" where
  "array_of P v = (case v of JList xs \<Rightarrow> list_all P xs | _ \<Rightarrow> False)"

text \<open>The shape of a record that the detector walks without raising.\<close>

definition well_shaped_span :: "json \<Rightarrow> bool" where
  "well_shaped_span sp =
     (is_dict sp \<and> absent_or is_str (field ''name'' sp) \<and>
      (is_tool_span sp \<longrightarrow> absent_or is_dict (field ''status'' sp)))"

definition well_shaped_scope_spans :: "json \<Rightarrow> bool" where
  "well_shaped_scope_spans ss =
     (is_dict ss \<and> absent_or (array_of well_shaped_span) (field ''spans'' ss))"

definition well_shaped_resource_spans :: "json \<Rightarrow> bool" where
  "well_shaped_resource_spans rs =
     (is_dict rs \<and> absent_or (array_of well_shaped_scope_spans) (field ''scopeSpans'' rs))"

definition well_shaped_metric :: "json \<Rightarrow> bool" where
  "well_shaped_metric m = (is_dict m \<and> absent_or is_str (field ''name'' m))"

definition well_shaped_scope_metrics :: "json \<Rightarrow> bool" where
  "well_shaped_scope_metrics sm =
     (is_dict sm \<and> absent_or (array_of well_shaped_metric) (field ''metrics'' sm))"

definition well_shaped_resource_metrics :: "json \<Rightarrow> bool" where
  "well_shaped_resource_metrics rm =
     (is_dict rm \<and> absent_or (array_of well_shaped_scope_metrics) (field ''scopeMetrics'' rm))"

definition well_shaped_entry :: "json \<Rightarrow> bool" where
  "well_shaped_entry entry =
     (case field ''type'' entry of
        None \<Rightarrow> False
      | Some ty \<Rightarrow>
          if ty = JStr ''traces'' then
            absent_or (\<lambda>data. is_dict data \<and>
                absent_or (array_of well_shaped_resource_spans) (field ''resourceSpans'' data))
              (field ''data'' entry)
          else if ty = JStr ''metrics'' then
            absent_or (\<lambda>data. is_dict data \<and>
                absent_or (array_of well_shaped_resource_metrics) (field ''resourceMetrics'' data))
              (field ''data'' entry)
          else True)"

definition sparse_example :: "json list" where
  "sparse_example =
     [JDict [(''timestamp'', JStr ''2025-01-01T12:00:00''), (''type'', JStr ''traces'')],
      JDict [(''timestamp'', JStr ''2025-01-01T12:00:01''), (''type'', JStr ''traces''),
             (''data'', JDict [])],
      JDict [(''timestamp'', JStr ''2025-01-01T12:00:02''), (''type'', JStr ''traces''),
             (''data'', JDict [(''resourceSpans'', JList [JDict []])])],
      JDict [(''timestamp'', JStr ''2025-01-01T12:00:03''), (''type'', JStr ''traces''),
             (''data'', JDict [(''resourceSpans'',
                JList [JDict [(''scopeSpans'', JList [JDict []])]])])],
      example_record [JDict [], JDict [(''name'', JStr ''my_tool'')], example_span ''tool_x'' 2],
      JDict [(''timestamp'', JStr ''2025-01-01T12:00:04''), (''type'', JStr ''metrics''),
             (''data'', JDict [(''resourceMetrics'',
                JList [JDict [(''scopeMetrics'',
                  JList [JDict [(''metrics'',
                    JList [JDict [(''name'', JStr ''token_usage'')], JDict []])]])]])])],
      JDict [(''timestamp'', JStr ''2025-01-01T12:00:05''), (''type'', JStr ''logs'')]]"

subsection \<open>The loader\<close>

text \<open>
  A \<open>datetime\<close>: naive, a number of microseconds on the local wall-clock time line,
  or aware, the wall-clock microseconds together with the offset from UTC.
  \<open>datetime.now()\<close> is naive.
\<close>

datatype datetime = Naive int | Aware int int

text \<open>\<open>timestamp > cutoff\<close> for the naive \<open>cutoff\<close>: comparing an aware datetime
  with a naive one raises \<open>TypeError\<close>.\<close>

definition later_than :: "datetime \<Rightarrow> int \<Rightarrow> error + bool" where
  "later_than timestamp cutoff =
     (case timestamp of Naive t \<Rightarrow> Inr (t > cutoff) | Aware t off \<Rightarrow> Inl TypeError)"

text \<open>
  \<open>json.loads\<close> and \<open>datetime.fromisoformat\<close> are library functions; the model takes
  them as parameters, \<open>None\<close> standing for the \<open>ValueError\<close> they raise on a text they
  do not accept. \<open>fromisoformat\<close> raises \<open>TypeError\<close> on a value that is not a string.
\<close>

definition parse_timestamp :: "(string \<Rightarrow> datetime option) \<Rightarrow> json \<Rightarrow> error + datetime" where
  "parse_timestamp fromisoformat v =
     (case v of
        JStr s \<Rightarrow> (case fromisoformat s of None \<Rightarrow> Inl ValueError | Some t \<Rightarrow> Inr t)
      | _ \<Rightarrow> Inl TypeError)"

text \<open>The body of the \<open>try\<close> block, and the statement with its \<open>except: continue\<close>.\<close>

definition try_body ::
  "(string \<Rightarrow> json option) \<Rightarrow> (string \<Rightarrow> datetime option) \<Rightarrow> int \<Rightarrow> json list \<Rightarrow> string
     \<Rightarrow> error + json list" where
  "try_body loads fromisoformat cutoff recent line =
     (case loads line of
        None \<Rightarrow> Inl ValueError
      | Some entry \<Rightarrow>
          bind_err (subscript entry ''timestamp'') (\<lambda>v.
          bind_err (parse_timestamp fromisoformat v) (\<lambda>timestamp.
          bind_err (later_than timestamp cutoff) (\<lambda>later.
            Inr (if later then recent @ [entry] else recent)))))"

definition try_except ::
  "(string \<Rightarrow> json option) \<Rightarrow> (string \<Rightarrow> datetime option) \<Rightarrow> int \<Rightarrow> json list \<Rightarrow> string
     \<Rightarrow> json list" where
  "try_except loads fromisoformat cutoff recent line =
     (case try_body loads fromisoformat cutoff recent line of
        Inl e \<Rightarrow> recent
      | Inr recent' \<Rightarrow> recent')"

text \<open>
  The body of \<open>for line in f\<close>. The file is opened in text mode, so the loop itself
  decodes the bytes of each line, outside the \<open>try\<close>: bytes that the codec of the locale
  does not accept raise \<open>UnicodeDecodeError\<close>, which leaves the function. \<open>decode\<close> is
  that codec, \<open>None\<close> on bytes it does not accept.
\<close>

definition line_body ::
  "(string \<Rightarrow> string option) \<Rightarrow> (string \<Rightarrow> json option) \<Rightarrow> (string \<Rightarrow> datetime option) \<Rightarrow> int
     \<Rightarrow> json list \<Rightarrow> string \<Rightarrow> error + json list" where
  "line_body decode loads fromisoformat cutoff recent raw =
     (case decode raw of
        None \<Rightarrow> Inl UnicodeDecodeError
      | Some line \<Rightarrow> Inr (try_except loads fromisoformat cutoff recent line))"

text \<open>
  \<open>load_recent_telemetry(minutes)\<close>: \<open>now\<close> is the reading of the clock, \<open>log_lines\<close>
  the lines of the telemetry log as bytes, \<open>None\<close> when the file does not exist.
\<close>

definition load_recent_telemetry ::
  "(string \<Rightarrow> string option) \<Rightarrow> (string \<Rightarrow> json option) \<Rightarrow> (string \<Rightarrow> datetime option) \<Rightarrow> int
     \<Rightarrow> int \<Rightarrow> string list option \<Rightarrow> error + json list" where
  "load_recent_telemetry decode loads fromisoformat now minutes log_lines =
     (case log_lines of
        None \<Rightarrow> Inr []
      | Some raw_lines \<Rightarrow>
          let cutoff = now - minutes * 60000000
          in for_loop (line_body decode loads fromisoformat cutoff) [] raw_lines)"

text \<open>
  The specification's reading of the loader: the record of a line, when the line parses
  and its \<open>timestamp\<close> parses and lies strictly after the cutoff. The cutoff is a local
  wall-clock time; \<open>zone\<close> is the offset of the local zone from UTC, so that an aware
  timestamp and the cutoff are compared as instants.
\<close>

definition timestamp_of :: "(string \<Rightarrow> datetime option) \<Rightarrow> json \<Rightarrow> datetime option" where
  "timestamp_of fromisoformat entry =
     (case field ''timestamp'' entry of Some (JStr s) \<Rightarrow> fromisoformat s | _ \<Rightarrow> None)"

definition strictly_after :: "int \<Rightarrow> datetime \<Rightarrow> int \<Rightarrow> bool" where
  "strictly_after zone timestamp cutoff =
     (case timestamp of
        Naive t \<Rightarrow> t > cutoff
      | Aware t off \<Rightarrow> t - off > cutoff - zone)"

definition claimed_record ::
  "(string \<Rightarrow> json option) \<Rightarrow> (string \<Rightarrow> datetime option) \<Rightarrow> int \<Rightarrow> int \<Rightarrow> string
     \<Rightarrow> json option" where
  "claimed_record loads fromisoformat zone cutoff line =
     (case loads line of
        None \<Rightarrow> None
      | Some entry \<Rightarrow>
          (case timestamp_of fromisoformat entry of
             None \<Rightarrow> None
           | Some timestamp \<Rightarrow>
               if strictly_after zone timestamp cutoff then Some entry else None))"

text \<open>
  What the loader keeps: the record of a line, when the line parses and its
  \<open>timestamp\<close> parses to a naive datetime strictly after the cutoff.
\<close>

definition naive_after :: "datetime \<Rightarrow> int \<Rightarrow> bool" where
  "naive_after timestamp cutoff =
     (case timestamp of Naive t \<Rightarrow> t > cutoff | Aware t off \<Rightarrow> False)"

definition recent_record ::
  "(string \<Rightarrow> json option) \<Rightarrow> (string \<Rightarrow> datetime option) \<Rightarrow> int \<Rightarrow> string \<Rightarrow> json option" where
  "recent_record loads fromisoformat cutoff line =
     (case loads line of
        None \<Rightarrow> None
      | Some entry \<Rightarrow>
          (case timestamp_of fromisoformat entry of
             None \<Rightarrow> None
           | Some timestamp \<Rightarrow> if naive_after timestamp cutoff then Some entry else None))"

text \<open>A line that is skipped: it does not parse, it has no \<open>timestamp\<close> that parses, or
  its \<open>timestamp\<close> is aware.\<close>

definition is_aware :: "datetime \<Rightarrow> bool" where
  "is_aware timestamp = (case timestamp of Naive t \<Rightarrow> False | Aware t off \<Rightarrow> True)"

definition skipped ::
  "(string \<Rightarrow> json option) \<Rightarrow> (string \<Rightarrow> datetime option) \<Rightarrow> string \<Rightarrow> bool" where
  "skipped loads fromisoformat line =
     (case loads line of
        None \<Rightarrow> True
      | Some entry \<Rightarrow>
          (case timestamp_of fromisoformat entry of
             None \<Rightarrow> True
           | Some timestamp \<Rightarrow> is_aware timestamp))"

definition decodable :: "(string \<Rightarrow> string option) \<Rightarrow> string \<Rightarrow> bool" where
  "decodable decode raw = (decode raw \<noteq> None)"

text \<open>
  For the examples: the ASCII codec, and stand-ins for the two parsers on five lines.
\<close>

definition example_decode :: "string \<Rightarrow> string option" where
  "example_decode raw = (if list_all (\<lambda>c. (of_char c :: nat) < 128) raw then Some raw else None)"

definition example_loads :: "string \<Rightarrow> json option" where
  "example_loads line =
     (if line = ''recent'' then
        Some (JDict [(''timestamp'', JStr ''2025-01-01T12:00:00''), (''type'', JStr ''traces'')])
      else if line = ''old'' then
        Some (JDict [(''timestamp'', JStr ''2025-01-01T11:00:00''), (''type'', JStr ''traces'')])
      else if line = ''zoned'' then
        Some (JDict [(''timestamp'', JStr ''2025-01-01T12:00:00+00:00''),
                     (''type'', JStr ''traces'')])
      else if line = ''undated'' then
        Some (JDict [(''timestamp'', JStr ''yesterday''), (''type'', JStr ''traces'')])
      else if line = ''untyped'' then
        Some (JDict [(''timestamp'', JStr ''2025-01-01T12:00:00'')])
      else None)"

definition example_fromisoformat :: "string \<Rightarrow> datetime option" where
  "example_fromisoformat s =
     (if s = ''2025-01-01T12:00:00'' then Some (Naive 63871329600000000)
      else if s = ''2025-01-01T11:00:00'' then Some (Naive 63871326000000000)
      else if s = ''2025-01-01T12:00:00+00:00'' then Some (Aware 63871329600000000 0)
      else None)"

subsection \<open>The status writer\<close>

text \<open>
  The two files of the analyzer: the lines of the telemetry log and the content of the
  status file, each \<open>None\<close> when the file does not exist. The status file holds the
  object that \<open>json.dump\<close> serialises. Creating the directory and the failures of the
  file system are not modelled.
\<close>

record files =
  telemetry_log :: "string list option"
  status_file :: "json option"

definition patterns_json :: "(string \<times> bool) list \<Rightarrow> json" where
  "patterns_json patterns = JDict (map (\<lambda>kv. (fst kv, JBool (snd kv))) patterns)"

text \<open>
  \<open>update_statusline\<close>. \<open>now\<close> and \<open>now'\<close> are the two readings of the clock, in the
  loader and for the time stamp of the status; \<open>isoformat\<close> is the library's
  \<open>datetime.isoformat\<close>.
\<close>

definition update_statusline ::
  "(string \<Rightarrow> string option) \<Rightarrow> (string \<Rightarrow> json option) \<Rightarrow> (string \<Rightarrow> datetime option)
     \<Rightarrow> (int \<Rightarrow> string) \<Rightarrow> int \<Rightarrow> int \<Rightarrow> files \<Rightarrow> error + json \<times> files" where
  "update_statusline decode loads fromisoformat isoformat now now' fs =
     bind_err (load_recent_telemetry decode loads fromisoformat now 5 (telemetry_log fs))
       (\<lambda>telemetry.
     bind_err (detect_patterns telemetry) (\<lambda>patterns.
     bind_err (generate_coaching patterns) (\<lambda>message.
       let status =
         JDict [(''timestamp'', JStr (isoformat now')),
                (''message'', JStr message),
                (''patterns'', patterns_json patterns),
                (''telemetry_count'', JInt (int (length telemetry)))]
       in Inr (status, fs\<lparr>status_file := Some status\<rparr>))))"

definition example_isoformat :: "int \<Rightarrow> string" where
  "example_isoformat t = (if t = 63871329720000000 then ''2025-01-01T12:02:00'' else [])"

definition example_status :: "nat \<Rightarrow> json" where
  "example_status n =
     JDict [(''timestamp'', JStr ''2025-01-01T12:02:00''),
            (''message'', JStr msg_stuck),
            (''patterns'',
               JDict [(''error_thrashing'', JBool False), (''flow_state'', JBool False),
                      (''stuck'', JBool True), (''context_pressure'', JBool False),
                      (''exploring'', JBool False), (''debugging'', JBool False)]),
            (''telemetry_count'', JInt (int n))]"

section \<open>Theorems\<close>

subsection \<open>The loops of the detector add up the tool spans\<close>

lemma add_spans_Nil: "add_spans c [] = c"
  by (simp add: add_spans_def)

lemma add_spans_append: "add_spans (add_spans c xs) ys = add_spans c (xs @ ys)"
  by (auto simp: add_spans_def)

lemma for_loop_add_spans:
  assumes "\<And>c x c'. x \<in> set xs \<Longrightarrow> body c x = Inr c' \<Longrightarrow> c' = add_spans c (f x)"
    and "for_loop body c xs = Inr c'"
  shows "c' = add_spans c (concat (map f xs))"
  using assms
proof (induction xs arbitrary: c)
  case Nil
  then show ?case by (simp add: add_spans_Nil)
next
  case (Cons x xs)
  from Cons.prems(2) obtain c1 where b: "body c x = Inr c1" and r: "for_loop body c1 xs = Inr c'"
    by (auto split: sum.splits)
  from Cons.prems(1) [of x c c1] b have c1: "c1 = add_spans c (f x)" by simp
  from Cons.IH [of c1] Cons.prems(1) r have "c' = add_spans c1 (concat (map f xs))" by simp
  with c1 show ?case by (simp add: add_spans_append)
qed

lemma span_body_add:
  "span_body c sp = Inr c' \<Longrightarrow> c' = add_spans c [sp]"
  by (auto simp: span_body_def bind_err_def get_default_def lower_def set_add_def add_spans_def
      is_tool_span_def is_error_span_def span_name_def field_def eq_int_def
      split: json.splits option.splits if_splits sum.splits)

lemma for_loop_singletons:
  assumes "for_loop span_body c xs = Inr c'"
  shows "c' = add_spans c xs"
  using for_loop_add_spans [of xs span_body "\<lambda>x. [x]" c c'] assms
  by (simp add: span_body_add)

lemma for_loop_strings:
  assumes "\<And>c s. \<exists>e. body c (JStr s) = Inl e"
    and "for_loop body c (map (\<lambda>x. JStr (g x)) xs) = Inr c'"
  shows "xs = []"
proof (cases xs)
  case Nil
  then show ?thesis by simp
next
  case (Cons x rest)
  from assms(1) [of c "g x"] obtain e where "body c (JStr (g x)) = Inl e" by blast
  with assms(2) Cons show ?thesis by simp
qed

lemma iterate_elements:
  assumes "\<And>c s. \<exists>e. body c (JStr s) = Inl e"
    and "iterate v = Inr xs"
    and "for_loop body c xs = Inr c'"
  shows "xs = elements (Some v)"
proof (cases v)
  case (JList ys)
  with assms(2) show ?thesis by (simp add: iterate_def elements_def)
next
  case (JDict kvs)
  with assms(2) have xs: "xs = map (\<lambda>kv. JStr (fst kv)) kvs" by (simp add: iterate_def)
  with assms(1,3) for_loop_strings [of body c fst kvs c'] have "kvs = []" by blast
  with xs JDict show ?thesis by (simp add: elements_def)
next
  case (JStr s)
  with assms(2) have xs: "xs = map (\<lambda>ch. JStr [ch]) s" by (simp add: iterate_def)
  with assms(1,3) for_loop_strings [of body c "\<lambda>ch. [ch]" s c'] have "s = []" by blast
  with xs JStr show ?thesis by (simp add: elements_def)
qed (use assms(2) in \<open>simp_all add: iterate_def\<close>)

lemma span_body_string: "\<exists>e. span_body c (JStr s) = Inl e"
  by (simp add: span_body_def bind_err_def get_default_def)

lemma scope_spans_body_string: "\<exists>e. scope_spans_body c (JStr s) = Inl e"
  by (simp add: scope_spans_body_def bind_err_def get_default_def)

lemma resource_spans_body_string: "\<exists>e. resource_spans_body c (JStr s) = Inl e"
  by (simp add: resource_spans_body_def bind_err_def get_default_def)

lemma get_default_Inr:
  assumes "get_default obj key dflt = Inr v"
  shows "elements (Some v) = (if field key obj = None then elements (Some dflt) else elements (field key obj))"
  using assms by (auto simp: get_default_def field_def split: json.splits option.splits)

lemma scope_spans_body_add:
  assumes "scope_spans_body c ss = Inr c'"
  shows "c' = add_spans c (scope_spans_of ss)"
proof -
  from assms obtain spans xs where g: "get_default ss ''spans'' (JList []) = Inr spans"
    and i: "iterate spans = Inr xs" and l: "for_loop span_body c xs = Inr c'"
    by (auto simp: scope_spans_body_def bind_err_def split: sum.splits)
  from iterate_elements [of span_body spans xs c c'] span_body_string i l
  have "xs = elements (Some spans)" by blast
  with get_default_Inr [OF g] have "xs = scope_spans_of ss"
    by (auto simp: scope_spans_of_def elements_def)
  with for_loop_singletons [OF l] show ?thesis by simp
qed

lemma resource_spans_body_add:
  assumes "resource_spans_body c rs = Inr c'"
  shows "c' = add_spans c (resource_spans_of rs)"
proof -
  from assms obtain sss xs where g: "get_default rs ''scopeSpans'' (JList []) = Inr sss"
    and i: "iterate sss = Inr xs" and l: "for_loop scope_spans_body c xs = Inr c'"
    by (auto simp: resource_spans_body_def bind_err_def split: sum.splits)
  from iterate_elements [of scope_spans_body sss xs c c'] scope_spans_body_string i l
  have "xs = elements (Some sss)" by blast
  with get_default_Inr [OF g] have "xs = elements (field ''scopeSpans'' rs)"
    by (auto simp: elements_def)
  with for_loop_add_spans [of xs scope_spans_body scope_spans_of c c'] l scope_spans_body_add
  show ?thesis by (simp add: resource_spans_of_def)
qed

lemma for_loop_unchanged:
  assumes "\<And>c x c'. body c x = Inr c' \<Longrightarrow> c' = c"
    and "for_loop body c xs = Inr c'"
  shows "c' = c"
  using assms(2)
proof (induction xs arbitrary: c)
  case Nil
  then show ?case by simp
next
  case (Cons x xs)
  then obtain c1 where b: "body c x = Inr c1" and r: "for_loop body c1 xs = Inr c'"
    by (auto split: sum.splits)
  from assms(1) [OF b] Cons.IH [OF r] show ?case by simp
qed

lemma metric_body_unchanged: "metric_body c m = Inr c' \<Longrightarrow> c' = c"
  by (auto simp: metric_body_def bind_err_def split: sum.splits if_splits)

lemma scope_metrics_body_unchanged: "scope_metrics_body c sm = Inr c' \<Longrightarrow> c' = c"
  using for_loop_unchanged [of metric_body] metric_body_unchanged
  by (fastforce simp: scope_metrics_body_def bind_err_def split: sum.splits)

lemma resource_metrics_body_unchanged: "resource_metrics_body c rm = Inr c' \<Longrightarrow> c' = c"
  using for_loop_unchanged [of scope_metrics_body] scope_metrics_body_unchanged
  by (fastforce simp: resource_metrics_body_def bind_err_def split: sum.splits)

lemma subscript_Inr: "subscript obj key = Inr v \<Longrightarrow> field key obj = Some v"
  by (auto simp: subscript_def field_def split: json.splits option.splits)

lemma get_default_field:
  "get_default obj key dflt = Inr v \<Longrightarrow>
     v = (case field key obj of None \<Rightarrow> dflt | Some x \<Rightarrow> x)"
  by (auto simp: get_default_def field_def split: json.splits option.splits)

lemma entry_body_add:
  assumes "entry_body c entry = Inr c'"
  shows "c' = add_spans c (spans_of entry)"
proof -
  from assms obtain ty where ty: "subscript entry ''type'' = Inr ty"
    by (auto simp: entry_body_def bind_err_def split: sum.splits)
  then have f: "field ''type'' entry = Some ty" by (rule subscript_Inr)
  show ?thesis
  proof (cases "ty = JStr ''traces''")
    case True
    with assms ty obtain data rss xs where
      d: "get_default entry ''data'' (JDict []) = Inr data" and
      g: "get_default data ''resourceSpans'' (JList []) = Inr rss" and
      i: "iterate rss = Inr xs" and l: "for_loop resource_spans_body c xs = Inr c'"
      by (auto simp: entry_body_def bind_err_def split: sum.splits)
    from iterate_elements [of resource_spans_body rss xs c c'] resource_spans_body_string i l
    have "xs = elements (Some rss)" by blast
    with get_default_Inr [OF g] have xs: "xs = elements (field ''resourceSpans'' data)"
      by (auto simp: elements_def)
    from get_default_field [OF d]
    have "field ''resourceSpans'' data = Option.bind (field ''data'' entry) (field ''resourceSpans'')"
      by (auto simp: field_def split: option.splits)
    with xs f True have "spans_of entry = concat (map resource_spans_of xs)"
      by (simp add: spans_of_def)
    with for_loop_add_spans [of xs resource_spans_body resource_spans_of c c'] l
      resource_spans_body_add
    show ?thesis by simp
  next
    case False
    with f have s: "spans_of entry = []" by (simp add: spans_of_def)
    have "c' = c"
    proof (cases "ty = JStr ''metrics''")
      case True
      with assms ty False obtain xs where "for_loop resource_metrics_body c xs = Inr c'"
        by (auto simp: entry_body_def bind_err_def split: sum.splits)
      with for_loop_unchanged [of resource_metrics_body c xs c'] resource_metrics_body_unchanged
      show ?thesis by blast
    next
      case other: False
      with assms ty False show ?thesis by (simp add: entry_body_def bind_err_def)
    qed
    with s show ?thesis by (simp add: add_spans_Nil)
  qed
qed

lemma scan_counts:
  assumes "for_loop entry_body initial_counts telemetry = Inr c"
  shows "c = \<lparr>tool_errors = errors telemetry, tool_successes = successes telemetry,
              unique_tools = span_name ` set (tool_spans telemetry)\<rparr>"
  using for_loop_add_spans [of telemetry entry_body spans_of initial_counts c] assms entry_body_add
  by (simp add: add_spans_def initial_counts_def errors_def successes_def tool_spans_def)

lemma detect_patterns_flags:
  assumes "detect_patterns telemetry = Inr patterns"
  shows "patterns = flags_of (length telemetry)
           \<lparr>tool_errors = errors telemetry, tool_successes = successes telemetry,
            unique_tools = span_name ` set (tool_spans telemetry)\<rparr>"
  using assms scan_counts [of telemetry]
  by (auto simp: detect_patterns_def bind_err_def split: sum.splits)

lemma map_of_set_if:
  "map_of (set_if cond key patterns) k =
     (if cond \<and> k = key then Some True else map_of patterns k)"
  by (simp add: set_if_def update_conv')

lemma keys_set_if:
  "key \<in> set (map fst patterns) \<Longrightarrow> map fst (set_if cond key patterns) = map fst patterns"
  by (simp add: set_if_def update_keys)

lemma flags_of_keys: "map fst (flags_of n c) = pattern_names"
  by (simp add: flags_of_def Let_def keys_set_if initial_patterns_def pattern_names_def)

lemma flags_of_error_thrashing:
  "map_of (flags_of n c) ''error_thrashing'' =
     Some (error_rate (tool_errors c) (tool_successes c) > 2 / 5 \<and> tool_errors c \<ge> 3)"
  by (simp add: flags_of_def Let_def map_of_set_if initial_patterns_def)

lemma flags_of_flow_state:
  "map_of (flags_of n c) ''flow_state'' =
     Some (tool_successes c \<ge> 5 \<and> card (unique_tools c) \<ge> 3 \<and>
           error_rate (tool_errors c) (tool_successes c) < 1 / 10)"
  by (simp add: flags_of_def Let_def map_of_set_if initial_patterns_def)


lemma flags_of_exploring:
  "map_of (flags_of n c) ''exploring'' = Some (card (unique_tools c) \<ge> 5)"
  by (simp add: flags_of_def Let_def map_of_set_if initial_patterns_def)

lemma flags_of_debugging:
  "map_of (flags_of n c) ''debugging'' = Some (tool_errors c \<ge> 2 \<and> tool_successes c \<ge> 2)"
  by (simp add: flags_of_def Let_def map_of_set_if initial_patterns_def)

lemma flags_of_context_pressure:
  "map_of (flags_of n c) ''context_pressure'' = Some False"
  by (simp add: flags_of_def Let_def map_of_set_if initial_patterns_def)

subsection \<open>The coach\<close>

lemma flag_present:
  "map_of patterns key = Some b \<Longrightarrow> flag patterns key = Inr b"
  by (simp add: flag_def)

text \<open>
  C2. \<open>generate_coaching\<close> is total on PatternFlags values: it returns exactly one
  message, the one of the first true flag in the order error_thrashing, stuck,
  flow_state, debugging, exploring, context_pressure, and the "ready" message when no
  flag is true. When error_thrashing and flow_state are both true, the message is the
  error-thrashing one.
\<close>

theorem generate_coaching_priority:
  "is_pattern_flags patterns \<longrightarrow>
     generate_coaching patterns = Inr (first_match patterns priority_order) \<and>
     (map_of patterns ''error_thrashing'' = Some True \<and>
      map_of patterns ''flow_state'' = Some True \<longrightarrow>
        generate_coaching patterns = Inr msg_error_thrashing)"
proof
  assume pf: "is_pattern_flags patterns"
  then obtain b1 b2 b3 b4 b5 b6 where keys:
    "map_of patterns ''error_thrashing'' = Some b1"
    "map_of patterns ''stuck'' = Some b2"
    "map_of patterns ''flow_state'' = Some b3"
    "map_of patterns ''debugging'' = Some b4"
    "map_of patterns ''exploring'' = Some b5"
    "map_of patterns ''context_pressure'' = Some b6"
    by (auto simp: is_pattern_flags_def pattern_names_def)
  have sel: "generate_coaching patterns = Inr (first_match patterns priority_order)"
    by (simp add: generate_coaching_def bind_err_def flag_present keys priority_order_def)
  moreover have "map_of patterns ''error_thrashing'' = Some True \<longrightarrow>
      generate_coaching patterns = Inr msg_error_thrashing"
    by (simp add: generate_coaching_def bind_err_def flag_def)
  ultimately show "generate_coaching patterns = Inr (first_match patterns priority_order) \<and>
     (map_of patterns ''error_thrashing'' = Some True \<and>
      map_of patterns ''flow_state'' = Some True \<longrightarrow>
        generate_coaching patterns = Inr msg_error_thrashing)"
    by blast
qed

theorem generate_coaching_priority_witness:
  "is_pattern_flags
     [(''error_thrashing'', True), (''flow_state'', True), (''stuck'', False),
      (''context_pressure'', False), (''exploring'', False), (''debugging'', False)] \<and>
   generate_coaching
     [(''error_thrashing'', True), (''flow_state'', True), (''stuck'', False),
      (''context_pressure'', False), (''exploring'', False), (''debugging'', False)]
     = Inr msg_error_thrashing"
proof -
  let ?p = "[(''error_thrashing'', True), (''flow_state'', True), (''stuck'', False),
      (''context_pressure'', False), (''exploring'', False), (''debugging'', False)]"
  have pf: "is_pattern_flags ?p"
    by (auto simp: is_pattern_flags_def pattern_names_def)
  have both: "map_of ?p ''error_thrashing'' = Some True \<and> map_of ?p ''flow_state'' = Some True"
    by simp
  from generate_coaching_priority [of ?p] pf both
  have "generate_coaching ?p = Inr msg_error_thrashing"
    by blast
  with pf show ?thesis
    by blast
qed

subsection \<open>Evaluation on the examples\<close>

lemmas eval_defs = detect_patterns_def bind_err_def entry_body_def subscript_def get_default_def
  iterate_def resource_spans_body_def scope_spans_body_def span_body_def lower_def lower_char_def
  set_add_def eq_int_def initial_counts_def flags_of_def set_if_def initial_patterns_def
  error_rate_def Let_def example_span_def example_record_def

lemmas spec_defs = errors_def successes_def distinct_tools_def tool_spans_def spans_of_def
  resource_spans_of_def scope_spans_of_def field_def elements_def is_tool_span_def
  is_error_span_def span_name_def lower_char_def eq_int_def example_span_def example_record_def

lemma detect_thrashing_example:
  "detect_patterns thrashing_example =
     Inr [(''error_thrashing'', True), (''flow_state'', False), (''stuck'', True),
          (''context_pressure'', False), (''exploring'', False), (''debugging'', True)]"
  by (simp add: thrashing_example_def eval_defs)



lemma counts_repetitive_example:
  "errors repetitive_example = 0 \<and> successes repetitive_example = 5 \<and>
   distinct_tools repetitive_example = 1"
  by (simp add: repetitive_example_def spec_defs)



subsection \<open>The rules of the detector\<close>



text \<open>
  C9. The flags returned by \<open>detect_patterns\<close> never have error_thrashing and
  flow_state both true: the first needs an error rate above 0.4, the second one below
  0.1, over the same counts.
\<close>

theorem thrashing_excludes_flow:
  "detect_patterns telemetry = Inr patterns \<Longrightarrow>
     \<not> (map_of patterns ''error_thrashing'' = Some True \<and>
        map_of patterns ''flow_state'' = Some True)"
  by (drule detect_patterns_flags) (auto simp: flags_of_error_thrashing flags_of_flow_state)

theorem thrashing_excludes_flow_witness:
  "detect_patterns thrashing_example =
     Inr [(''error_thrashing'', True), (''flow_state'', False), (''stuck'', True),
          (''context_pressure'', False), (''exploring'', False), (''debugging'', True)] \<and>
   \<not> (map_of [(''error_thrashing'', True), (''flow_state'', False), (''stuck'', True),
          (''context_pressure'', False), (''exploring'', False), (''debugging'', True)]
         ''error_thrashing'' = Some True \<and>
      map_of [(''error_thrashing'', True), (''flow_state'', False), (''stuck'', True),
          (''context_pressure'', False), (''exploring'', False), (''debugging'', True)]
         ''flow_state'' = Some True)"
  using thrashing_excludes_flow [OF detect_thrashing_example] detect_thrashing_example
  by blast

lemma generate_coaching_no_pressure:
  "map_of patterns ''context_pressure'' = Some False \<Longrightarrow>
     generate_coaching patterns \<noteq> Inr msg_context_pressure"
  by (auto simp: generate_coaching_def bind_err_def flag_def msg_error_thrashing_def msg_stuck_def
      msg_flow_state_def msg_debugging_def msg_exploring_def msg_context_pressure_def msg_ready_def
      split: option.splits)

text \<open>
  C7. The context_pressure flag returned by \<open>detect_patterns\<close> is false on every
  input, so the detector followed by the coach never emits the context-pressure message.
\<close>

theorem context_pressure_never_set:
  "detect_patterns telemetry = Inr patterns \<Longrightarrow>
     map_of patterns ''context_pressure'' = Some False \<and>
     generate_coaching patterns \<noteq> Inr msg_context_pressure"
proof -
  assume "detect_patterns telemetry = Inr patterns"
  then have "map_of patterns ''context_pressure'' = Some False"
    by (drule_tac detect_patterns_flags) (simp add: flags_of_context_pressure)
  then show ?thesis
    using generate_coaching_no_pressure [of patterns] by simp
qed

theorem context_pressure_never_set_witness:
  "detect_patterns thrashing_example =
     Inr [(''error_thrashing'', True), (''flow_state'', False), (''stuck'', True),
          (''context_pressure'', False), (''exploring'', False), (''debugging'', True)] \<and>
   map_of [(''error_thrashing'', True), (''flow_state'', False), (''stuck'', True),
          (''context_pressure'', False), (''exploring'', False), (''debugging'', True)]
      ''context_pressure'' = Some False \<and>
   generate_coaching [(''error_thrashing'', True), (''flow_state'', False), (''stuck'', True),
          (''context_pressure'', False), (''exploring'', False), (''debugging'', True)]
      \<noteq> Inr msg_context_pressure"
  using context_pressure_never_set [OF detect_thrashing_example] detect_thrashing_example
  by blast



lemma span_body_tool:
  assumes "is_tool_span sp" and "absent_or is_dict (field ''status'' sp)"
  shows "span_body c sp =
        Inr (if is_error_span sp
             then c\<lparr>unique_tools := insert (span_name sp) (unique_tools c),
                    tool_errors := tool_errors c + 1\<rparr>
             else c\<lparr>unique_tools := insert (span_name sp) (unique_tools c),
                    tool_successes := tool_successes c + 1\<rparr>)"
proof -
  from assms(1) obtain kvs n where sp: "sp = JDict kvs" and n: "map_of kvs ''name'' = Some (JStr n)"
    and t: "str_contains ''tool'' (map lower_char n)"
    by (auto simp: is_tool_span_def span_name_def field_def split: json.splits option.splits)
  from assms(2) sp
  have "map_of kvs ''status'' = None \<or> (\<exists>st. map_of kvs ''status'' = Some (JDict st))"
    by (auto simp: absent_or_def is_dict_def field_def split: option.splits json.splits)
  then show ?thesis
    using sp n t
    by (auto simp: span_body_def bind_err_def get_default_def lower_def set_add_def
        is_error_span_def span_name_def field_def eq_int_def split: option.splits)
qed

lemma span_body_bad_status:
  assumes "is_tool_span sp" and "\<not> absent_or is_dict (field ''status'' sp)"
  shows "span_body c sp = Inl AttributeError"
proof -
  from assms(1) obtain kvs n where sp: "sp = JDict kvs" and n: "map_of kvs ''name'' = Some (JStr n)"
    and t: "str_contains ''tool'' (map lower_char n)"
    by (auto simp: is_tool_span_def span_name_def field_def split: json.splits option.splits)
  from assms(2) sp obtain st where st: "map_of kvs ''status'' = Some st" and nd: "\<not> is_dict st"
    by (auto simp: absent_or_def field_def split: option.splits)
  from nd have "get_default st ''code'' JNull = Inl AttributeError"
    by (cases st) (simp_all add: get_default_def is_dict_def)
  with sp n t st show ?thesis
    by (simp add: span_body_def bind_err_def get_default_def lower_def set_add_def)
qed

lemma span_body_no_name:
  assumes "is_dict sp" and "field ''name'' sp = None"
  shows "\<not> is_tool_span sp \<and> span_body c sp = Inr c"
proof -
  from assms(1) obtain kvs where sp: "sp = JDict kvs"
    by (auto simp: is_dict_def split: json.splits)
  with assms(2) have "map_of kvs ''name'' = None" by (simp add: field_def)
  with sp show ?thesis
    by (simp add: span_body_def bind_err_def get_default_def lower_def is_tool_span_def
        span_name_def field_def)
qed

text \<open>
  C10, as the code has it. A span whose name contains "tool", case-insensitively, and
  whose \<open>status\<close> is absent or an object is counted exactly once: as an error when its
  status code equals 2, as a success otherwise, also when the status or its code is
  missing. A tool span whose \<open>status\<close> is present and not an object raises
  \<open>AttributeError\<close> and is not counted. Whenever the scan completes, the error count plus
  the success count is the number of tool spans of the input.
\<close>

theorem tool_span_classified:
  "(is_tool_span sp \<and> absent_or is_dict (field ''status'' sp) \<longrightarrow>
      span_body c sp =
        Inr (if is_error_span sp
             then c\<lparr>unique_tools := insert (span_name sp) (unique_tools c),
                    tool_errors := tool_errors c + 1\<rparr>
             else c\<lparr>unique_tools := insert (span_name sp) (unique_tools c),
                    tool_successes := tool_successes c + 1\<rparr>)) \<and>
   (is_tool_span sp2 \<and> \<not> absent_or is_dict (field ''status'' sp2) \<longrightarrow>
      span_body c sp2 = Inl AttributeError) \<and>
   (Option.bind (field ''status'' sp) (field ''code'') = None \<longrightarrow> \<not> is_error_span sp) \<and>
   (for_loop entry_body initial_counts telemetry = Inr c' \<longrightarrow>
      tool_errors c' + tool_successes c' = length (tool_spans telemetry))"
proof (intro conjI impI)
  assume "is_tool_span sp \<and> absent_or is_dict (field ''status'' sp)"
  then show "span_body c sp =
        Inr (if is_error_span sp
             then c\<lparr>unique_tools := insert (span_name sp) (unique_tools c),
                    tool_errors := tool_errors c + 1\<rparr>
             else c\<lparr>unique_tools := insert (span_name sp) (unique_tools c),
                    tool_successes := tool_successes c + 1\<rparr>)"
    using span_body_tool [of sp c] by blast
next
  assume "is_tool_span sp2 \<and> \<not> absent_or is_dict (field ''status'' sp2)"
  then show "span_body c sp2 = Inl AttributeError"
    using span_body_bad_status [of sp2 c] by blast
next
  assume "Option.bind (field ''status'' sp) (field ''code'') = None"
  then show "\<not> is_error_span sp" by (simp add: is_error_span_def)
next
  assume "for_loop entry_body initial_counts telemetry = Inr c'"
  from scan_counts [OF this]
  have "tool_errors c' + tool_successes c' = errors telemetry + successes telemetry"
    by simp
  also have "\<dots> = length (tool_spans telemetry)"
    by (simp add: errors_def successes_def sum_length_filter_compl)
  finally show "tool_errors c' + tool_successes c' = length (tool_spans telemetry)" .
qed

theorem tool_span_classified_witness:
  "is_tool_span (JDict [(''name'', JStr ''read_TOOL'')]) \<and>
   absent_or is_dict (field ''status'' (JDict [(''name'', JStr ''read_TOOL'')])) \<and>
   Option.bind (field ''status'' (JDict [(''name'', JStr ''read_TOOL'')])) (field ''code'') = None \<and>
   span_body initial_counts (JDict [(''name'', JStr ''read_TOOL'')]) =
     Inr \<lparr>tool_errors = 0, tool_successes = 1, unique_tools = {''read_TOOL''}\<rparr> \<and>
   is_tool_span (JDict [(''name'', JStr ''tool_a''), (''status'', JStr ''failed'')]) \<and>
   \<not> absent_or is_dict
       (field ''status'' (JDict [(''name'', JStr ''tool_a''), (''status'', JStr ''failed'')])) \<and>
   span_body initial_counts (JDict [(''name'', JStr ''tool_a''), (''status'', JStr ''failed'')]) =
     Inl AttributeError \<and>
   for_loop entry_body initial_counts thrashing_example =
     Inr \<lparr>tool_errors = 3, tool_successes = 2,
          unique_tools = {''tool_a'', ''Tool_b'', ''tool_c'', ''read_TOOL''}\<rparr> \<and>
   length (tool_spans thrashing_example) = 3 + 2"
proof -
  let ?sp = "JDict [(''name'', JStr ''read_TOOL'')]"
  let ?sp2 = "JDict [(''name'', JStr ''tool_a''), (''status'', JStr ''failed'')]"
  let ?c = "\<lparr>tool_errors = 3, tool_successes = 2,
          unique_tools = {''tool_a'', ''Tool_b'', ''tool_c'', ''read_TOOL''}\<rparr>"
  have h1: "is_tool_span ?sp \<and> absent_or is_dict (field ''status'' ?sp)"
    by (simp add: is_tool_span_def span_name_def field_def lower_char_def absent_or_def)
  have h2: "Option.bind (field ''status'' ?sp) (field ''code'') = None"
    by (simp add: field_def)
  have h3: "for_loop entry_body initial_counts thrashing_example = Inr ?c"
    by (simp add: thrashing_example_def eval_defs insert_commute)
  have h4: "is_tool_span ?sp2 \<and> \<not> absent_or is_dict (field ''status'' ?sp2)"
    by (simp add: is_tool_span_def span_name_def field_def lower_char_def absent_or_def
        is_dict_def)
  from tool_span_classified [of ?sp initial_counts ?sp2 thrashing_example ?c] h1 h2 h3 h4
  have "span_body initial_counts ?sp =
      Inr (initial_counts\<lparr>unique_tools := insert (span_name ?sp) (unique_tools initial_counts),
             tool_successes := tool_successes initial_counts + 1\<rparr>) \<and>
    span_body initial_counts ?sp2 = Inl AttributeError \<and>
    tool_errors ?c + tool_successes ?c = length (tool_spans thrashing_example)"
    by presburger
  with h1 h2 h3 h4 show ?thesis
    by (simp add: initial_counts_def span_name_def field_def)
qed

text \<open>
  A tool span whose \<open>status\<close> is \<open>null\<close> is neither an error nor a success:
  \<open>status.get\<close> raises \<open>AttributeError\<close>, in the span and so in the detector.
\<close>

theorem tool_span_null_status_counterexample:
  "is_tool_span (JDict [(''name'', JStr ''tool_a''), (''status'', JNull)]) \<and>
   span_body initial_counts (JDict [(''name'', JStr ''tool_a''), (''status'', JNull)]) =
     Inl AttributeError \<and>
   detect_patterns [example_record [JDict [(''name'', JStr ''tool_a''), (''status'', JNull)]]] =
     Inl AttributeError"
  by (simp add: is_tool_span_def span_name_def field_def eval_defs)



subsection \<open>Input shapes\<close>

lemma for_loop_succeeds:
  assumes "\<And>c x. x \<in> set xs \<Longrightarrow> \<exists>c'. body c x = Inr c'"
  shows "\<exists>c'. for_loop body c xs = Inr c'"
  using assms
proof (induction xs arbitrary: c)
  case Nil
  then show ?case by simp
next
  case (Cons x xs)
  from Cons.prems [of x c] obtain c1 where "body c x = Inr c1" by auto
  moreover from Cons.IH [of c1] Cons.prems obtain c2 where "for_loop body c1 xs = Inr c2"
    by auto
  ultimately show ?case by simp
qed

lemma array_field_succeeds:
  assumes "is_dict obj"
    and "absent_or (array_of P) (field key obj)"
    and "\<And>c x. P x \<Longrightarrow> \<exists>c'. body c x = Inr c'"
  shows "\<exists>c'. bind_err (get_default obj key (JList []))
            (\<lambda>v. bind_err (iterate v) (for_loop body c)) = Inr c'"
proof -
  from assms(1) obtain kvs where obj: "obj = JDict kvs"
    by (auto simp: is_dict_def split: json.splits)
  show ?thesis
  proof (cases "map_of kvs key")
    case None
    with obj show ?thesis by (simp add: get_default_def bind_err_def iterate_def)
  next
    case (Some v)
    with assms(2) obj obtain xs where v: "v = JList xs" and all: "list_all P xs"
      by (auto simp: absent_or_def array_of_def field_def split: json.splits)
    from all assms(3) have "\<And>c x. x \<in> set xs \<Longrightarrow> \<exists>c'. body c x = Inr c'"
      by (simp add: list_all_iff)
    from for_loop_succeeds [of xs body c, OF this] obtain c' where "for_loop body c xs = Inr c'"
      by blast
    with obj Some v show ?thesis by (simp add: get_default_def bind_err_def iterate_def)
  qed
qed

lemma span_body_succeeds:
  assumes "well_shaped_span sp"
  shows "\<exists>c'. span_body c sp = Inr c'"
proof -
  from assms obtain kvs where sp: "sp = JDict kvs"
    by (auto simp: well_shaped_span_def is_dict_def split: json.splits)
  from assms sp have name: "map_of kvs ''name'' = None \<or> (\<exists>n. map_of kvs ''name'' = Some (JStr n))"
    by (auto simp: well_shaped_span_def absent_or_def is_str_def field_def
        split: option.splits json.splits)
  from assms sp have status: "is_tool_span sp \<longrightarrow>
      map_of kvs ''status'' = None \<or> (\<exists>st. map_of kvs ''status'' = Some (JDict st))"
    by (auto simp: well_shaped_span_def absent_or_def is_dict_def field_def
        split: option.splits json.splits)
  from name status sp show ?thesis
    by (auto simp: span_body_def bind_err_def get_default_def lower_def set_add_def
        is_tool_span_def span_name_def field_def)
qed

lemma scope_spans_body_succeeds:
  "well_shaped_scope_spans ss \<Longrightarrow> \<exists>c'. scope_spans_body c ss = Inr c'"
  unfolding scope_spans_body_def well_shaped_scope_spans_def
  using array_field_succeeds [of ss well_shaped_span "''spans''" span_body c] span_body_succeeds
  by blast

lemma resource_spans_body_succeeds:
  "well_shaped_resource_spans rs \<Longrightarrow> \<exists>c'. resource_spans_body c rs = Inr c'"
  unfolding resource_spans_body_def well_shaped_resource_spans_def
  using array_field_succeeds [of rs well_shaped_scope_spans "''scopeSpans''" scope_spans_body c]
    scope_spans_body_succeeds
  by blast

lemma metric_body_succeeds:
  assumes "well_shaped_metric m"
  shows "\<exists>c'. metric_body c m = Inr c'"
proof -
  from assms obtain kvs where m: "m = JDict kvs"
    by (auto simp: well_shaped_metric_def is_dict_def split: json.splits)
  from assms m have "map_of kvs ''name'' = None \<or> (\<exists>n. map_of kvs ''name'' = Some (JStr n))"
    by (auto simp: well_shaped_metric_def absent_or_def is_str_def field_def
        split: option.splits json.splits)
  with m show ?thesis
    by (auto simp: metric_body_def bind_err_def get_default_def lower_def)
qed

lemma scope_metrics_body_succeeds:
  "well_shaped_scope_metrics sm \<Longrightarrow> \<exists>c'. scope_metrics_body c sm = Inr c'"
  unfolding scope_metrics_body_def well_shaped_scope_metrics_def
  using array_field_succeeds [of sm well_shaped_metric "''metrics''" metric_body c]
    metric_body_succeeds
  by blast

lemma resource_metrics_body_succeeds:
  "well_shaped_resource_metrics rm \<Longrightarrow> \<exists>c'. resource_metrics_body c rm = Inr c'"
  unfolding resource_metrics_body_def well_shaped_resource_metrics_def
  using array_field_succeeds [of rm well_shaped_scope_metrics "''scopeMetrics''"
      scope_metrics_body c] scope_metrics_body_succeeds
  by blast

lemma data_succeeds:
  assumes "field ''type'' entry = Some ty"
    and "absent_or (\<lambda>data. is_dict data \<and> absent_or (array_of P) (field key data))
           (field ''data'' entry)"
    and "\<And>c x. P x \<Longrightarrow> \<exists>c'. body c x = Inr c'"
  shows "\<exists>c'. bind_err (get_default entry ''data'' (JDict [])) (\<lambda>data.
           bind_err (get_default data key (JList [])) (\<lambda>v.
           bind_err (iterate v) (for_loop body c))) = Inr c'"
proof -
  from assms(1) obtain kvs where e: "entry = JDict kvs"
    by (auto simp: field_def split: json.splits)
  define data where "data = (case map_of kvs ''data'' of None \<Rightarrow> JDict [] | Some d \<Rightarrow> d)"
  from e have g: "get_default entry ''data'' (JDict []) = Inr data"
    by (simp add: get_default_def data_def)
  from assms(2) e have "is_dict data \<and> absent_or (array_of P) (field key data)"
    by (auto simp: data_def absent_or_def field_def is_dict_def split: option.splits)
  with array_field_succeeds [of data P key body c] assms(3) g show ?thesis
    by (simp add: bind_err_def)
qed

lemma entry_body_succeeds:
  assumes "well_shaped_entry entry"
  shows "\<exists>c'. entry_body c entry = Inr c'"
proof -
  from assms obtain ty where ty: "field ''type'' entry = Some ty"
    by (auto simp: well_shaped_entry_def split: option.splits)
  then have s: "subscript entry ''type'' = Inr ty"
    by (auto simp: field_def subscript_def split: json.splits)
  show ?thesis
  proof (cases "ty = JStr ''traces''")
    case True
    with assms ty data_succeeds [of entry ty well_shaped_resource_spans "''resourceSpans''"
        resource_spans_body c] resource_spans_body_succeeds
    have "\<exists>c'. bind_err (get_default entry ''data'' (JDict [])) (\<lambda>data.
           bind_err (get_default data ''resourceSpans'' (JList [])) (\<lambda>v.
           bind_err (iterate v) (for_loop resource_spans_body c))) = Inr c'"
      by (simp add: well_shaped_entry_def)
    with s True show ?thesis by (simp add: entry_body_def bind_err_def)
  next
    case False
    show ?thesis
    proof (cases "ty = JStr ''metrics''")
      case True
      with assms ty False data_succeeds [of entry ty well_shaped_resource_metrics
          "''resourceMetrics''" resource_metrics_body c] resource_metrics_body_succeeds
      have "\<exists>c'. bind_err (get_default entry ''data'' (JDict [])) (\<lambda>data.
           bind_err (get_default data ''resourceMetrics'' (JList [])) (\<lambda>v.
           bind_err (iterate v) (for_loop resource_metrics_body c))) = Inr c'"
        by (simp add: well_shaped_entry_def)
      with s True False show ?thesis by (simp add: entry_body_def bind_err_def)
    next
      case other: False
      with s False show ?thesis by (simp add: entry_body_def bind_err_def)
    qed
  qed
qed

lemma scan_succeeds:
  assumes "list_all well_shaped_entry telemetry"
  shows "\<exists>c. for_loop entry_body initial_counts telemetry = Inr c"
  using for_loop_succeeds [of telemetry entry_body initial_counts] entry_body_succeeds assms
  by (simp add: list_all_iff)

text \<open>
  C4, as the code has it. When every record is an object with a \<open>type\<close> field and
  every nested field that is present has its shape (\<open>data\<close>, the elements of
  \<open>resourceSpans\<close>, \<open>scopeSpans\<close> and \<open>spans\<close>, and the \<open>status\<close> of a
  tool span are objects; \<open>resourceSpans\<close>, \<open>scopeSpans\<close> and \<open>spans\<close> are
  arrays; \<open>name\<close> is a string; likewise for metrics), \<open>detect_patterns\<close> returns,
  and its counts are those of the tool spans that are present. A missing \<open>data\<close>,
  \<open>resourceSpans\<close>, \<open>scopeSpans\<close> or \<open>spans\<close> contributes no span; a span without
  \<open>name\<close> is no tool span and leaves the counts as they are; a tool span without
  \<open>status\<close>, or without \<open>code\<close> in its status, adds one success and no error.
\<close>

theorem well_shaped_no_error:
  "(list_all well_shaped_entry telemetry \<longrightarrow>
      detect_patterns telemetry =
        Inr (flags_of (length telemetry)
              \<lparr>tool_errors = errors telemetry, tool_successes = successes telemetry,
               unique_tools = span_name ` set (tool_spans telemetry)\<rparr>)) \<and>
   (Option.bind (field ''data'' entry) (field ''resourceSpans'') = None \<longrightarrow>
      spans_of entry = []) \<and>
   (field ''scopeSpans'' rs = None \<longrightarrow> resource_spans_of rs = []) \<and>
   (field ''spans'' ss = None \<longrightarrow> scope_spans_of ss = []) \<and>
   (is_dict sp \<and> field ''name'' sp = None \<longrightarrow>
      \<not> is_tool_span sp \<and> span_body c sp = Inr c) \<and>
   (is_tool_span sp2 \<and> absent_or is_dict (field ''status'' sp2) \<and>
    Option.bind (field ''status'' sp2) (field ''code'') = None \<longrightarrow>
      span_body c sp2 =
        Inr (c\<lparr>unique_tools := insert (span_name sp2) (unique_tools c),
               tool_successes := tool_successes c + 1\<rparr>))"
proof (intro conjI impI)
  assume "list_all well_shaped_entry telemetry"
  from scan_succeeds [OF this] obtain c where c: "for_loop entry_body initial_counts telemetry = Inr c"
    by blast
  with scan_counts [OF c] show "detect_patterns telemetry =
        Inr (flags_of (length telemetry)
              \<lparr>tool_errors = errors telemetry, tool_successes = successes telemetry,
               unique_tools = span_name ` set (tool_spans telemetry)\<rparr>)"
    by (simp add: detect_patterns_def bind_err_def)
next
  assume a: "is_dict sp \<and> field ''name'' sp = None"
  then have "\<not> is_tool_span sp \<and> span_body c sp = Inr c"
    using span_body_no_name [of sp c] by simp
  then show "\<not> is_tool_span sp" and "span_body c sp = Inr c"
    by simp_all
next
  assume a: "is_tool_span sp2 \<and> absent_or is_dict (field ''status'' sp2) \<and>
    Option.bind (field ''status'' sp2) (field ''code'') = None"
  then have "\<not> is_error_span sp2" by (simp add: is_error_span_def)
  with a span_body_tool [of sp2 c] show "span_body c sp2 =
        Inr (c\<lparr>unique_tools := insert (span_name sp2) (unique_tools c),
               tool_successes := tool_successes c + 1\<rparr>)"
    by simp
qed (simp_all add: spans_of_def resource_spans_of_def scope_spans_of_def elements_def)

lemmas shape_defs = well_shaped_entry_def well_shaped_resource_spans_def
  well_shaped_scope_spans_def well_shaped_span_def well_shaped_resource_metrics_def
  well_shaped_scope_metrics_def well_shaped_metric_def is_dict_def is_str_def absent_or_def
  array_of_def field_def is_tool_span_def span_name_def lower_char_def example_record_def
  example_span_def

lemma sparse_example_well_shaped: "list_all well_shaped_entry sparse_example"
  by (simp add: sparse_example_def shape_defs)

lemma detect_sparse_example:
  "detect_patterns sparse_example =
     Inr [(''error_thrashing'', False), (''flow_state'', False), (''stuck'', False),
          (''context_pressure'', False), (''exploring'', False), (''debugging'', False)]"
  by (simp add: sparse_example_def eval_defs metric_body_def scope_metrics_body_def
      resource_metrics_body_def)

theorem well_shaped_no_error_witness:
  "list_all well_shaped_entry sparse_example \<and>
   detect_patterns sparse_example =
     Inr [(''error_thrashing'', False), (''flow_state'', False), (''stuck'', False),
          (''context_pressure'', False), (''exploring'', False), (''debugging'', False)] \<and>
   errors sparse_example = 1 \<and> successes sparse_example = 1 \<and>
   Option.bind (field ''data'' (JDict [(''type'', JStr ''traces'')])) (field ''resourceSpans'') = None \<and>
   spans_of (JDict [(''type'', JStr ''traces'')]) = [] \<and>
   field ''scopeSpans'' (JDict []) = None \<and> resource_spans_of (JDict []) = [] \<and>
   field ''spans'' (JDict []) = None \<and> scope_spans_of (JDict []) = [] \<and>
   is_dict (JDict []) \<and> field ''name'' (JDict []) = None \<and>
   span_body initial_counts (JDict []) = Inr initial_counts \<and>
   is_tool_span (JDict [(''name'', JStr ''my_tool''), (''status'', JDict [])]) \<and>
   absent_or is_dict (field ''status'' (JDict [(''name'', JStr ''my_tool''), (''status'', JDict [])])) \<and>
   Option.bind (field ''status'' (JDict [(''name'', JStr ''my_tool''), (''status'', JDict [])]))
     (field ''code'') = None \<and>
   span_body initial_counts (JDict [(''name'', JStr ''my_tool''), (''status'', JDict [])]) =
     Inr \<lparr>tool_errors = 0, tool_successes = 1, unique_tools = {''my_tool''}\<rparr>"
proof -
  let ?sp2 = "JDict [(''name'', JStr ''my_tool''), (''status'', JDict [])]"
  have h1: "Option.bind (field ''data'' (JDict [(''type'', JStr ''traces'')]))
      (field ''resourceSpans'') = None"
    by (simp add: field_def)
  have h2: "field ''scopeSpans'' (JDict []) = None" and h3: "field ''spans'' (JDict []) = None"
    by (simp_all add: field_def)
  have h4: "is_dict (JDict []) \<and> field ''name'' (JDict []) = None"
    by (simp add: is_dict_def field_def)
  have h5: "is_tool_span ?sp2 \<and> absent_or is_dict (field ''status'' ?sp2) \<and>
      Option.bind (field ''status'' ?sp2) (field ''code'') = None"
    by (simp add: is_tool_span_def span_name_def field_def lower_char_def absent_or_def
        is_dict_def)
  have cnt: "errors sparse_example = 1 \<and> successes sparse_example = 1"
    by (simp add: sparse_example_def spec_defs)
  from well_shaped_no_error [of sparse_example "JDict [(''type'', JStr ''traces'')]"
      "JDict []" "JDict []" "JDict []" initial_counts ?sp2]
    sparse_example_well_shaped h1 h2 h3 h4 h5
  have "spans_of (JDict [(''type'', JStr ''traces'')]) = [] \<and>
     resource_spans_of (JDict []) = [] \<and> scope_spans_of (JDict []) = [] \<and>
     span_body initial_counts (JDict []) = Inr initial_counts \<and>
     span_body initial_counts ?sp2 =
        Inr (initial_counts\<lparr>unique_tools := insert (span_name ?sp2) (unique_tools initial_counts),
               tool_successes := tool_successes initial_counts + 1\<rparr>)"
    by blast
  then have "spans_of (JDict [(''type'', JStr ''traces'')]) = [] \<and>
     resource_spans_of (JDict []) = [] \<and> scope_spans_of (JDict []) = [] \<and>
     span_body initial_counts (JDict []) = Inr initial_counts \<and>
     span_body initial_counts ?sp2 =
        Inr \<lparr>tool_errors = 0, tool_successes = 1, unique_tools = {''my_tool''}\<rparr>"
    by (simp add: initial_counts_def span_name_def field_def)
  with sparse_example_well_shaped detect_sparse_example h1 h2 h3 h4 h5 cnt show ?thesis
    by blast
qed

text \<open>
  A record without \<open>type\<close> raises \<open>KeyError\<close> at \<open>entry['type']\<close>, and a
  \<open>data\<close> that is \<open>null\<close> raises \<open>AttributeError\<close> at \<open>data.get\<close>.
\<close>

theorem detect_patterns_raises_counterexample:
  "detect_patterns [JDict [(''timestamp'', JStr ''2025-01-01T12:00:00'')]] = Inl KeyError \<and>
   detect_patterns [JDict [(''timestamp'', JStr ''2025-01-01T12:00:00''),
      (''type'', JStr ''traces''), (''data'', JNull)]] = Inl AttributeError"
  by (simp add: eval_defs)

subsection \<open>The loader\<close>

lemma try_except_recent_record:
  "try_except loads fromisoformat cutoff recent line =
     recent @ (case recent_record loads fromisoformat cutoff line of None \<Rightarrow> [] | Some e \<Rightarrow> [e])"
  by (auto simp: try_except_def try_body_def recent_record_def timestamp_of_def bind_err_def
      subscript_def field_def parse_timestamp_def later_than_def naive_after_def
      split: option.splits json.splits datetime.splits sum.splits)

lemma for_loop_line_body:
  assumes "list_all (decodable decode) raw_lines"
  shows "for_loop (line_body decode loads fromisoformat cutoff) recent raw_lines =
     Inr (recent @ List.map_filter (recent_record loads fromisoformat cutoff)
                     (List.map_filter decode raw_lines))"
  using assms
proof (induction raw_lines arbitrary: recent)
  case Nil
  then show ?case by (simp add: map_filter_simps)
next
  case (Cons raw raw_lines)
  from Cons.prems obtain line where d: "decode raw = Some line"
    by (auto simp: decodable_def)
  from Cons.prems have rest: "list_all (decodable decode) raw_lines" by simp
  from d have step: "line_body decode loads fromisoformat cutoff recent raw =
      Inr (try_except loads fromisoformat cutoff recent line)"
    by (simp add: line_body_def)
  have "for_loop (line_body decode loads fromisoformat cutoff) recent (raw # raw_lines) =
      for_loop (line_body decode loads fromisoformat cutoff)
        (try_except loads fromisoformat cutoff recent line) raw_lines"
    by (simp add: step)
  also have "\<dots> = Inr (try_except loads fromisoformat cutoff recent line @
      List.map_filter (recent_record loads fromisoformat cutoff)
        (List.map_filter decode raw_lines))"
    by (rule Cons.IH [OF rest])
  also have "\<dots> = Inr (recent @ List.map_filter (recent_record loads fromisoformat cutoff)
      (List.map_filter decode (raw # raw_lines)))"
    by (simp add: d try_except_recent_record map_filter_simps split: option.splits)
  finally show ?case .
qed

lemma for_loop_undecodable:
  assumes "\<not> list_all (decodable decode) raw_lines"
  shows "for_loop (line_body decode loads fromisoformat cutoff) recent raw_lines =
     Inl UnicodeDecodeError"
  using assms
proof (induction raw_lines arbitrary: recent)
  case Nil
  then show ?case by simp
next
  case (Cons raw raw_lines)
  show ?case
  proof (cases "decode raw")
    case None
    then have "line_body decode loads fromisoformat cutoff recent raw = Inl UnicodeDecodeError"
      by (simp add: line_body_def)
    then show ?thesis by simp
  next
    case (Some line)
    then have "decodable decode raw" by (simp add: decodable_def)
    with Cons.prems have rest: "\<not> list_all (decodable decode) raw_lines"
      by simp
    from Some have "line_body decode loads fromisoformat cutoff recent raw =
        Inr (try_except loads fromisoformat cutoff recent line)"
      by (simp add: line_body_def)
    with Cons.IH [OF rest] show ?thesis by simp
  qed
qed

lemma map_filter_append:
  "List.map_filter f (xs @ ys) = List.map_filter f xs @ List.map_filter f ys"
  by (simp add: map_filter_def)

lemma skipped_no_record:
  "skipped loads fromisoformat line \<Longrightarrow> recent_record loads fromisoformat cutoff line = None"
  by (auto simp: skipped_def recent_record_def naive_after_def is_aware_def
      split: option.splits datetime.splits)

lemma load_recent_telemetry_decodable:
  assumes "list_all (decodable decode) raw_lines"
  shows "load_recent_telemetry decode loads fromisoformat now minutes (Some raw_lines) =
     Inr (List.map_filter (recent_record loads fromisoformat (now - minutes * 60000000))
            (List.map_filter decode raw_lines))"
  using for_loop_line_body [OF assms, of loads fromisoformat "now - minutes * 60000000" "[]"]
  by (simp add: load_recent_telemetry_def)

text \<open>
  C6, as the code has it. On a log whose lines all decode as text,
  \<open>load_recent_telemetry\<close> returns exactly the records, in the order of the lines, whose
  line parses and has a \<open>timestamp\<close> that parses to a datetime without UTC offset lying
  strictly after \<open>now\<close> minus the window. A line that does not parse, that has no
  \<open>timestamp\<close> that parses, or whose \<open>timestamp\<close> has a UTC offset is skipped, and the
  lines after it are still scanned. When the log does not exist the result is empty.
\<close>

theorem load_recent_telemetry_spec:
  "(list_all (decodable decode) raw_lines \<longrightarrow>
      load_recent_telemetry decode loads fromisoformat now minutes (Some raw_lines) =
        Inr (List.map_filter (recent_record loads fromisoformat (now - minutes * 60000000))
               (List.map_filter decode raw_lines))) \<and>
   (list_all (decodable decode) (before @ raw # after) \<and> decode raw = Some line \<and>
    skipped loads fromisoformat line \<longrightarrow>
      load_recent_telemetry decode loads fromisoformat now minutes (Some (before @ raw # after)) =
        load_recent_telemetry decode loads fromisoformat now minutes (Some (before @ after))) \<and>
   load_recent_telemetry decode loads fromisoformat now minutes None = Inr []"
proof (intro conjI impI)
  assume "list_all (decodable decode) raw_lines"
  then show "load_recent_telemetry decode loads fromisoformat now minutes (Some raw_lines) =
        Inr (List.map_filter (recent_record loads fromisoformat (now - minutes * 60000000))
               (List.map_filter decode raw_lines))"
    by (rule load_recent_telemetry_decodable)
next
  assume a: "list_all (decodable decode) (before @ raw # after) \<and> decode raw = Some line \<and>
    skipped loads fromisoformat line"
  then have all: "list_all (decodable decode) (before @ raw # after)"
    and rest: "list_all (decodable decode) (before @ after)"
    by simp_all
  from a have "recent_record loads fromisoformat (now - minutes * 60000000) line = None"
    by (simp add: skipped_no_record)
  with a show
    "load_recent_telemetry decode loads fromisoformat now minutes (Some (before @ raw # after)) =
     load_recent_telemetry decode loads fromisoformat now minutes (Some (before @ after))"
    by (simp add: load_recent_telemetry_decodable [OF all] load_recent_telemetry_decodable [OF rest]
        map_filter_append map_filter_simps)
next
  show "load_recent_telemetry decode loads fromisoformat now minutes None = Inr []"
    by (simp add: load_recent_telemetry_def)
qed

lemmas loader_defs = load_recent_telemetry_def line_body_def try_except_def try_body_def
  bind_err_def subscript_def parse_timestamp_def later_than_def example_loads_def
  example_fromisoformat_def example_decode_def Let_def

lemma load_example:
  "load_recent_telemetry example_decode example_loads example_fromisoformat 63871329720000000 5
     (Some [''old'', ''recent'', ''garbage'', ''zoned'', ''undated'', ''recent'']) =
     Inr [JDict [(''timestamp'', JStr ''2025-01-01T12:00:00''), (''type'', JStr ''traces'')],
          JDict [(''timestamp'', JStr ''2025-01-01T12:00:00''), (''type'', JStr ''traces'')]]"
  by (simp add: loader_defs)

theorem load_recent_telemetry_spec_witness:
  "list_all (decodable example_decode) ([''old'', ''recent''] @ ''zoned'' # [''garbage'', ''recent'']) \<and>
   example_decode ''zoned'' = Some ''zoned'' \<and>
   skipped example_loads example_fromisoformat ''zoned'' \<and>
   load_recent_telemetry example_decode example_loads example_fromisoformat 63871329720000000 5
     (Some ([''old'', ''recent''] @ ''zoned'' # [''garbage'', ''recent''])) =
     Inr [JDict [(''timestamp'', JStr ''2025-01-01T12:00:00''), (''type'', JStr ''traces'')],
          JDict [(''timestamp'', JStr ''2025-01-01T12:00:00''), (''type'', JStr ''traces'')]] \<and>
   load_recent_telemetry example_decode example_loads example_fromisoformat 63871329720000000 5
     (Some ([''old'', ''recent''] @ [''garbage'', ''recent''])) =
     Inr [JDict [(''timestamp'', JStr ''2025-01-01T12:00:00''), (''type'', JStr ''traces'')],
          JDict [(''timestamp'', JStr ''2025-01-01T12:00:00''), (''type'', JStr ''traces'')]]"
proof -
  let ?lines = "[''old'', ''recent''] @ ''zoned'' # [''garbage'', ''recent'']"
  have d: "list_all (decodable example_decode) ?lines"
    by (simp add: decodable_def example_decode_def)
  have z: "example_decode ''zoned'' = Some ''zoned''"
    by (simp add: example_decode_def)
  have s: "skipped example_loads example_fromisoformat ''zoned''"
    by (simp add: skipped_def example_loads_def timestamp_of_def field_def
        example_fromisoformat_def is_aware_def)
  have l: "load_recent_telemetry example_decode example_loads example_fromisoformat
      63871329720000000 5 (Some ([''old'', ''recent''] @ [''garbage'', ''recent''])) =
     Inr [JDict [(''timestamp'', JStr ''2025-01-01T12:00:00''), (''type'', JStr ''traces'')],
          JDict [(''timestamp'', JStr ''2025-01-01T12:00:00''), (''type'', JStr ''traces'')]]"
    by (simp add: loader_defs)
  from load_recent_telemetry_spec [of example_decode ?lines example_loads example_fromisoformat
      63871329720000000 5 "[''old'', ''recent'']" "''zoned''" "[''garbage'', ''recent'']"
      "''zoned''"] d z s
  have "load_recent_telemetry example_decode example_loads example_fromisoformat
      63871329720000000 5 (Some ?lines) =
     load_recent_telemetry example_decode example_loads example_fromisoformat
      63871329720000000 5 (Some ([''old'', ''recent''] @ [''garbage'', ''recent'']))"
    by blast
  with d z s l show ?thesis by simp
qed

text \<open>
  Two lines the loader does not treat as stated. The line \<open>zoned\<close> parses and its
  \<open>timestamp\<close> parses, to noon UTC, which on a machine in the UTC zone is after the
  cutoff of three minutes to noon; the loader drops it, since the comparison with the
  naive cutoff raises \<open>TypeError\<close>. And a line with a byte that does not decode is not
  skipped: the scan ends with \<open>UnicodeDecodeError\<close>, although the line before it was
  recent.
\<close>

theorem loader_drops_and_aborts_counterexample:
  "load_recent_telemetry example_decode example_loads example_fromisoformat 63871329720000000 5
     (Some [''zoned'']) = Inr [] \<and>
   List.map_filter
     (claimed_record example_loads example_fromisoformat 0 (63871329720000000 - 5 * 60000000))
     [''zoned''] =
     [JDict [(''timestamp'', JStr ''2025-01-01T12:00:00+00:00''), (''type'', JStr ''traces'')]] \<and>
   load_recent_telemetry example_decode example_loads example_fromisoformat 63871329720000000 5
     (Some [''recent'', [CHR 0xFF], ''recent'']) = Inl UnicodeDecodeError"
  by (simp add: loader_defs map_filter_simps claimed_record_def timestamp_of_def field_def
      strictly_after_def)

subsection \<open>The status writer\<close>

lemma generate_coaching_defined:
  assumes "map fst patterns = pattern_names"
  shows "\<exists>message. generate_coaching patterns = Inr message"
proof -
  have "\<And>k. k \<in> set pattern_names \<Longrightarrow> \<exists>b. map_of patterns k = Some b"
  proof -
    fix k assume "k \<in> set pattern_names"
    with assms have "k \<in> fst ` set patterns" by (metis set_map)
    then show "\<exists>b. map_of patterns k = Some b"
      by (metis map_of_eq_None_iff not_None_eq)
  qed
  then obtain b1 b2 b3 b4 b5 b6 where
    "map_of patterns ''error_thrashing'' = Some b1"
    "map_of patterns ''stuck'' = Some b2"
    "map_of patterns ''flow_state'' = Some b3"
    "map_of patterns ''debugging'' = Some b4"
    "map_of patterns ''exploring'' = Some b5"
    "map_of patterns ''context_pressure'' = Some b6"
    unfolding pattern_names_def by (metis list.set_intros)
  then show ?thesis
    by (simp add: generate_coaching_def bind_err_def flag_def)
qed

lemma detect_patterns_keys:
  "detect_patterns telemetry = Inr patterns \<Longrightarrow> map fst patterns = pattern_names"
  by (drule detect_patterns_flags) (simp add: flags_of_keys)

lemma update_statusline_loader_raises:
  "load_recent_telemetry decode loads fromisoformat now 5 (telemetry_log fs) = Inl e \<Longrightarrow>
     update_statusline decode loads fromisoformat isoformat now now' fs = Inl e"
  by (simp add: update_statusline_def bind_err_def)

text \<open>
  C5, as the code has it. A run on which the detector returns writes one object with
  exactly the fields \<open>timestamp\<close> (the \<open>isoformat\<close> string of the clock),
  \<open>message\<close> (a string), \<open>patterns\<close> (the six pattern names with their booleans) and
  \<open>telemetry_count\<close> (the number of loaded records), and the status file holds that
  object afterwards, whatever it held before. A run on which the detector raises ends
  with that exception and writes nothing.
\<close>

theorem status_snapshot:
  "(load_recent_telemetry decode loads fromisoformat now 5 (telemetry_log fs) = Inr telemetry \<and>
    detect_patterns telemetry = Inr patterns \<longrightarrow>
      map fst patterns = pattern_names \<and>
      (\<exists>message. generate_coaching patterns = Inr message \<and>
         update_statusline decode loads fromisoformat isoformat now now' fs =
           Inr (JDict [(''timestamp'', JStr (isoformat now')),
                       (''message'', JStr message),
                       (''patterns'', patterns_json patterns),
                       (''telemetry_count'', JInt (int (length telemetry)))],
                fs\<lparr>status_file := Some
                  (JDict [(''timestamp'', JStr (isoformat now')),
                          (''message'', JStr message),
                          (''patterns'', patterns_json patterns),
                          (''telemetry_count'', JInt (int (length telemetry)))])\<rparr>))) \<and>
   (load_recent_telemetry decode loads fromisoformat now 5 (telemetry_log fs2) = Inr telemetry2 \<and>
    detect_patterns telemetry2 = Inl e \<longrightarrow>
      update_statusline decode loads fromisoformat isoformat now now' fs2 = Inl e)"
proof (intro conjI impI)
  assume a: "load_recent_telemetry decode loads fromisoformat now 5 (telemetry_log fs)
      = Inr telemetry \<and> detect_patterns telemetry = Inr patterns"
  then have d: "detect_patterns telemetry = Inr patterns" by simp
  from detect_patterns_keys [OF d] show k: "map fst patterns = pattern_names" .
  from generate_coaching_defined [OF k] obtain message
    where m: "generate_coaching patterns = Inr message" by blast
  with a show "\<exists>message. generate_coaching patterns = Inr message \<and>
         update_statusline decode loads fromisoformat isoformat now now' fs =
           Inr (JDict [(''timestamp'', JStr (isoformat now')),
                       (''message'', JStr message),
                       (''patterns'', patterns_json patterns),
                       (''telemetry_count'', JInt (int (length telemetry)))],
                fs\<lparr>status_file := Some
                  (JDict [(''timestamp'', JStr (isoformat now')),
                          (''message'', JStr message),
                          (''patterns'', patterns_json patterns),
                          (''telemetry_count'', JInt (int (length telemetry)))])\<rparr>)"
    by (simp add: update_statusline_def bind_err_def Let_def)
next
  assume "load_recent_telemetry decode loads fromisoformat now 5 (telemetry_log fs2)
      = Inr telemetry2 \<and> detect_patterns telemetry2 = Inl e"
  then show "update_statusline decode loads fromisoformat isoformat now now' fs2 = Inl e"
    by (simp add: update_statusline_def bind_err_def Let_def)
qed

lemma update_example:
  "update_statusline example_decode example_loads example_fromisoformat example_isoformat
     63871329720000000 63871329720000000
     \<lparr>telemetry_log = Some [''old'', ''recent'', ''garbage'', ''recent''],
      status_file = Some (example_status 7)\<rparr> =
   Inr (example_status 2,
        \<lparr>telemetry_log = Some [''old'', ''recent'', ''garbage'', ''recent''],
         status_file = Some (example_status 2)\<rparr>)"
  by (simp add: update_statusline_def loader_defs eval_defs generate_coaching_def flag_def
      example_status_def example_isoformat_def patterns_json_def)

text \<open>
  The count is stored under the key \<open>telemetry_count\<close>; the status has no field
  \<open>telemetryCount\<close>.
\<close>

theorem telemetry_count_key_counterexample:
  "update_statusline example_decode example_loads example_fromisoformat example_isoformat
     63871329720000000 63871329720000000
     \<lparr>telemetry_log = Some [''old'', ''recent'', ''garbage'', ''recent''],
      status_file = Some (example_status 7)\<rparr> =
   Inr (example_status 2,
        \<lparr>telemetry_log = Some [''old'', ''recent'', ''garbage'', ''recent''],
         status_file = Some (example_status 2)\<rparr>) \<and>
   field ''telemetryCount'' (example_status 2) = None \<and>
   field ''telemetry_count'' (example_status 2) = Some (JInt 2)"
  by (simp add: update_example) (simp add: field_def example_status_def)

theorem status_snapshot_witness:
  "load_recent_telemetry example_decode example_loads example_fromisoformat 63871329720000000 5
      (telemetry_log \<lparr>telemetry_log = Some [''old'', ''recent'', ''garbage'', ''recent''],
         status_file = Some (example_status 7)\<rparr>) =
     Inr [JDict [(''timestamp'', JStr ''2025-01-01T12:00:00''), (''type'', JStr ''traces'')],
          JDict [(''timestamp'', JStr ''2025-01-01T12:00:00''), (''type'', JStr ''traces'')]] \<and>
   detect_patterns
     [JDict [(''timestamp'', JStr ''2025-01-01T12:00:00''), (''type'', JStr ''traces'')],
      JDict [(''timestamp'', JStr ''2025-01-01T12:00:00''), (''type'', JStr ''traces'')]] =
     Inr [(''error_thrashing'', False), (''flow_state'', False), (''stuck'', True),
          (''context_pressure'', False), (''exploring'', False), (''debugging'', False)] \<and>
   update_statusline example_decode example_loads example_fromisoformat example_isoformat
     63871329720000000 63871329720000000
     \<lparr>telemetry_log = Some [''old'', ''recent'', ''garbage'', ''recent''],
      status_file = Some (example_status 7)\<rparr> =
   Inr (example_status 2,
        \<lparr>telemetry_log = Some [''old'', ''recent'', ''garbage'', ''recent''],
         status_file = Some (example_status 2)\<rparr>) \<and>
   load_recent_telemetry example_decode example_loads example_fromisoformat 63871329720000000 5
      (telemetry_log \<lparr>telemetry_log = Some [''recent'', ''untyped''], status_file = None\<rparr>) =
     Inr [JDict [(''timestamp'', JStr ''2025-01-01T12:00:00''), (''type'', JStr ''traces'')],
          JDict [(''timestamp'', JStr ''2025-01-01T12:00:00'')]] \<and>
   detect_patterns
     [JDict [(''timestamp'', JStr ''2025-01-01T12:00:00''), (''type'', JStr ''traces'')],
      JDict [(''timestamp'', JStr ''2025-01-01T12:00:00'')]] = Inl KeyError \<and>
   update_statusline example_decode example_loads example_fromisoformat example_isoformat
     63871329720000000 63871329720000000
     \<lparr>telemetry_log = Some [''recent'', ''untyped''], status_file = None\<rparr> = Inl KeyError"
proof -
  let ?fs = "\<lparr>telemetry_log = Some [''old'', ''recent'', ''garbage'', ''recent''],
      status_file = Some (example_status 7)\<rparr>"
  let ?fs2 = "\<lparr>telemetry_log = Some [''recent'', ''untyped''], status_file = None\<rparr>"
  let ?t = "[JDict [(''timestamp'', JStr ''2025-01-01T12:00:00''), (''type'', JStr ''traces'')],
      JDict [(''timestamp'', JStr ''2025-01-01T12:00:00''), (''type'', JStr ''traces'')]]"
  let ?t2 = "[JDict [(''timestamp'', JStr ''2025-01-01T12:00:00''), (''type'', JStr ''traces'')],
      JDict [(''timestamp'', JStr ''2025-01-01T12:00:00'')]]"
  let ?p = "[(''error_thrashing'', False), (''flow_state'', False), (''stuck'', True),
          (''context_pressure'', False), (''exploring'', False), (''debugging'', False)]"
  have l1: "load_recent_telemetry example_decode example_loads example_fromisoformat
      63871329720000000 5 (telemetry_log ?fs) = Inr ?t"
    by (simp add: loader_defs)
  have h1: "detect_patterns ?t = Inr ?p"
    by (simp add: eval_defs)
  have l2: "load_recent_telemetry example_decode example_loads example_fromisoformat
      63871329720000000 5 (telemetry_log ?fs2) = Inr ?t2"
    by (simp add: loader_defs)
  have h2: "detect_patterns ?t2 = Inl KeyError"
    by (simp add: eval_defs)
  from status_snapshot [of example_decode example_loads example_fromisoformat 63871329720000000
      ?fs ?t ?p example_isoformat 63871329720000000 ?fs2 ?t2 KeyError] l1 h1 l2 h2
  have "update_statusline example_decode example_loads example_fromisoformat example_isoformat
     63871329720000000 63871329720000000 ?fs2 = Inl KeyError"
    by blast
  with l1 h1 l2 h2 update_example show ?thesis by blast
qed

end
